theory Spec2Isabelle
  imports Complex_Main
begin

section \<open>Numbers, characters and the two regular expressions of the response parser\<close>

text \<open>
  A score of an inventory result (a domain score, a PSI) is modelled as an exact rational:
  \<open>number\<close> has no NaN and no infinity, and its arithmetic does not round. A raw sample,
  which the parser computes from the digits of a response, is modelled as the double it
  is, see \<open>sample\<close> below.

  A response string is a list of characters. The two regular expressions of
  \<open>runAnalysis\<close> only ask whether a character is an ASCII digit (\<open>\d\<close>) or an ASCII word
  character (\<open>\w\<close>, which decides \<open>\b\<close>); every other code unit behaves alike.
\<close>

type_synonym number = rat

definition is_digit :: "char \<Rightarrow> bool" where
  "is_digit c = (c \<in> set ''0123456789'')"

definition is_word_char :: "char \<Rightarrow> bool" where
  "is_word_char c =
     (c \<in> set ''abcdefghijklmnopqrstuvwxyzABCDEFGHIJKLMNOPQRSTUVWXYZ0123456789_'')"

definition digit_value :: "char \<Rightarrow> int" where
  "digit_value c = int (of_char c) - 48"

text \<open>
  The numbers of the parser are doubles with an integer value, or not finite. Such a
  double is an \<open>int option\<close>: \<open>Some n\<close> is the double of value \<open>n\<close>, \<open>None\<close> is any of
  Infinity, -Infinity and NaN (an operation with an operand that is not finite has a result
  that is not finite, for the operations used here).

  \<open>round_to_double n\<close> is the double nearest to the integer \<open>n\<close>, ties to even: every
  integer of magnitude up to \<open>2^53\<close> is a double; above, the doubles between \<open>2^(52+e)\<close>
  and \<open>2^(53+e)\<close> are the multiples of \<open>2^e\<close>, and a rounded magnitude of \<open>2^1024\<close> or
  more is Infinity. \<open>excess_bits a\<close> is that \<open>e\<close>: the number of low bits that do not fit
  into 53 bits. The result of an addition, a subtraction or a multiplication of two
  doubles is the exact result, rounded.
\<close>

function excess_bits :: "int \<Rightarrow> nat" where
  "excess_bits a = (if a < 2 ^ 53 then 0 else Suc (excess_bits (a div 2)))"
  by pat_completeness auto
termination
  by (relation "measure nat") auto

definition round_to_double :: "int \<Rightarrow> int option" where
  "round_to_double n =
     (if \<bar>n\<bar> \<le> 2 ^ 53 then Some n
      else
        (let a = \<bar>n\<bar>;
             e = excess_bits a;
             q = a div 2 ^ e;
             r = a mod 2 ^ e;
             half = 2 ^ (e - 1);
             rounded = (if half < r \<or> (r = half \<and> odd q) then (q + 1) * 2 ^ e else q * 2 ^ e)
         in if 2 ^ 1024 \<le> rounded then None else Some (sgn n * rounded)))"

definition double_add :: "int option \<Rightarrow> int option \<Rightarrow> int option" where
  "double_add x y = (case (x, y) of (Some a, Some b) \<Rightarrow> round_to_double (a + b) | _ \<Rightarrow> None)"

definition double_sub :: "int option \<Rightarrow> int option \<Rightarrow> int option" where
  "double_sub x y = (case (x, y) of (Some a, Some b) \<Rightarrow> round_to_double (a - b) | _ \<Rightarrow> None)"

definition double_mul :: "int option \<Rightarrow> int option \<Rightarrow> int option" where
  "double_mul x y = (case (x, y) of (Some a, Some b) \<Rightarrow> round_to_double (a * b) | _ \<Rightarrow> None)"

text \<open>
  A raw sample, an element of \<open>itemScores\<close>: a finite number, or a double that is not
  finite.
\<close>

datatype sample = Num number | NotFinite

definition sample_of :: "int option \<Rightarrow> sample" where
  "sample_of d = (case d of Some n \<Rightarrow> Num (of_int n) | None \<Rightarrow> NotFinite)"

text \<open>
  \<open>parseInt(s)\<close> as it is used here: its argument is always a run of ASCII digits cut out
  by a regular expression, so there is no sign, no blank and no radix prefix to skip.
  \<open>decimal\<close> is the integer that the leading digits denote, and the result is the double
  of that integer, or NaN when there is no leading digit. (ECMAScript lets an
  implementation replace the digits after the 20th by zeros before it rounds; the model
  rounds the integer itself.)
\<close>

definition decimal :: "string \<Rightarrow> int" where
  "decimal s = foldl (\<lambda>acc c. 10 * acc + digit_value c) 0 s"

definition parseInt :: "string \<Rightarrow> int option" where
  "parseInt s =
     (if takeWhile is_digit s = [] then None else round_to_double (decimal (takeWhile is_digit s)))"

text \<open>
  \<open>response.match(/(\d+)/g)\<close>: all matches from left to right, each one a greedy, hence
  maximal, run of digits; the search resumes where the last match ended. The empty list
  stands for \<open>null\<close>.
\<close>

function digit_matches :: "string \<Rightarrow> string list" where
  "digit_matches [] = []"
| "digit_matches (c # cs) =
     (if is_digit c then (c # takeWhile is_digit cs) # digit_matches (dropWhile is_digit cs)
      else digit_matches cs)"
  by pat_completeness auto
termination
  by (relation "measure length") (auto simp: length_dropWhile_le less_Suc_eq_le)

text \<open>
  \<open>\b\<close> at position \<open>i\<close> (ECMAScript): the character before \<open>i\<close> and the character at \<open>i\<close>
  differ in being word characters, where the positions before the start and after the end
  hold no word character.
\<close>

definition word_boundary :: "string \<Rightarrow> nat \<Rightarrow> bool" where
  "word_boundary s i =
     ((0 < i \<and> i \<le> length s \<and> is_word_char (s ! (i - 1)))
        \<noteq> (i < length s \<and> is_word_char (s ! i)))"

text \<open>
  \<open>response.match(/\b([1-5])\b/)\<close>: the pattern is tried at every start position from the
  left; the result is the position of the first match (\<open>None\<close> for \<open>null\<close>).
\<close>

definition likert_match_at :: "string \<Rightarrow> nat \<Rightarrow> bool" where
  "likert_match_at s i =
     (word_boundary s i \<and> i < length s \<and> s ! i \<in> set ''12345'' \<and> word_boundary s (Suc i))"

definition likert_match :: "string \<Rightarrow> nat option" where
  "likert_match s = find (likert_match_at s) [0..<length s]"

section \<open>Values and errors\<close>

text \<open>
  A parsed JSON value; an object is the list of its properties in enumeration order (the
  keys of one object are distinct).
\<close>

datatype json =
    JNull
  | JBool bool
  | JNum number
  | JStr string
  | JArr "json list"
  | JObj "(string \<times> json) list"

text \<open>
  What a \<open>catch\<close> clause receives: an \<open>Error\<close> with its message, or any other thrown
  value. \<open>error_message e d\<close> is \<open>e instanceof Error ? e.message : d\<close>.
\<close>

datatype js_error = Error string | Thrown

definition error_message :: "js_error \<Rightarrow> string \<Rightarrow> string" where
  "error_message e fallback = (case e of Error m \<Rightarrow> m | Thrown \<Rightarrow> fallback)"

section \<open>Inventory items, log lines and the parsing of one response\<close>

text \<open>
  The fields \<open>runAnalysis\<close> reads from an item. \<open>dimension\<close>, \<open>leftText\<close> and \<open>rightText\<close>
  belong to MBTI items, \<open>words\<close> (the \<open>text\<close> of each candidate word) to DISC items;
  \<open>None\<close> is an absent field.
\<close>

record InventoryItem =
  item_id :: string
  item_type :: string
  item_text :: string
  dimension :: "string option"
  leftText :: string
  rightText :: string
  words :: "string list option"

text \<open>
  One constructor per template string pushed to \<open>logs\<close>, carrying the interpolated values.
\<close>

datatype log_entry =
    LogStart string string
  | LogTotal nat nat
  | LogDisc string "int option" "int option"
  | LogDiscFail string string
  | LogScore string "int option"
  | LogParseFail string string
  | LogError string js_error
  | LogProgress nat nat
  | LogCalculating
  | LogSaving
  | LogDbError string
  | LogSaved
  | LogNotConfigured
  | LogCompleted
  | LogFatal string

text \<open>
  The parsing part of the \<open>try\<close> block (lines 191 to 216): the score pushed to
  \<open>itemScores\<close> and the line pushed to \<open>logs\<close>.
\<close>

definition parse_response :: "InventoryItem \<Rightarrow> string \<Rightarrow> sample \<times> log_entry" where
  "parse_response item response =
     (if item_type item = ''choice_binary'' then
        (let matches = digit_matches response in
         if 2 \<le> length matches then
           (let most = double_sub (parseInt (matches ! 0)) (Some 1);
                least = double_sub (parseInt (matches ! 1)) (Some 1);
                encoded = double_add (double_mul most (Some 10)) least
            in (sample_of encoded,
                LogDisc (item_id item) (double_add most (Some 1)) (double_add least (Some 1))))
         else (Num 0, LogDiscFail (item_id item) response))
      else
        (case likert_match response of
           Some i \<Rightarrow>
             (let score = parseInt [response ! i]
              in (sample_of score, LogScore (item_id item) score))
         | None \<Rightarrow> (Num 3, LogParseFail (item_id item) response)))"

section \<open>Inventory results and the MBTI derived from the Big Five\<close>

text \<open>
  The result of one inventory. \<open>type\<close> and \<open>psi\<close> are optional fields.
\<close>

record InventoryResult =
  inventoryName :: string
  rawScores :: "string \<rightharpoonup> sample list"
  traitScores :: "string \<rightharpoonup> number"
  type :: "string option"
  psi :: "(string \<rightharpoonup> number) option"
  details :: "(string \<times> json) list"

text \<open>
  \<open>deriveMBTIFromBigFive\<close>. \<open>or_default v d\<close> is \<open>v || d\<close> for a number that may be
  undefined: undefined and 0 are falsy (so is NaN, which is not a value of \<open>number\<close>).
\<close>

definition MIDPOINT :: number where
  "MIDPOINT = 72"

definition MAX_DELTA :: number where
  "MAX_DELTA = 48"

definition or_default :: "number option \<Rightarrow> number \<Rightarrow> number" where
  "or_default v d = (case v of None \<Rightarrow> d | Some x \<Rightarrow> if x = 0 then d else x)"

definition deriveMBTIFromBigFive :: "InventoryResult \<Rightarrow> InventoryResult" where
  "deriveMBTIFromBigFive bigFiveResults =
     (let scores = traitScores bigFiveResults;
          eScore = or_default (scores ''E'') MIDPOINT;
          oScore = or_default (scores ''O'') MIDPOINT;
          aScore = or_default (scores ''A'') MIDPOINT;
          cScore = or_default (scores ''C'') MIDPOINT;
          psi_map = [''IE'' \<mapsto> \<bar>eScore - MIDPOINT\<bar> / MAX_DELTA,
                     ''SN'' \<mapsto> \<bar>oScore - MIDPOINT\<bar> / MAX_DELTA,
                     ''TF'' \<mapsto> \<bar>aScore - MIDPOINT\<bar> / MAX_DELTA,
                     ''JP'' \<mapsto> \<bar>cScore - MIDPOINT\<bar> / MAX_DELTA];
          type_string =
            [if MIDPOINT \<le> eScore then CHR ''E'' else CHR ''I'',
             if MIDPOINT \<le> oScore then CHR ''N'' else CHR ''S'',
             if MIDPOINT \<le> aScore then CHR ''F'' else CHR ''T'',
             if MIDPOINT \<le> cScore then CHR ''J'' else CHR ''P''];
          trait_map = [''E'' \<mapsto> eScore, ''I'' \<mapsto> 144 - eScore,
                       ''N'' \<mapsto> oScore, ''S'' \<mapsto> 144 - oScore,
                       ''F'' \<mapsto> aScore, ''T'' \<mapsto> 144 - aScore,
                       ''J'' \<mapsto> cScore, ''P'' \<mapsto> 144 - cScore]
      in \<lparr>inventoryName = ''MBTI (Derived from Big Five)'',
          rawScores = Map.empty,
          traitScores = trait_map,
          type = Some type_string,
          psi = Some psi_map,
          details = [(''derived'', JBool True), (''source'', JStr ''IPIP-NEO-120'')]\<rparr>)"

section \<open>The sampling loop of runAnalysis\<close>

text \<open>
  The prompt of a sample, one constructor per template: the MBTI template with the two
  descriptions, the Big Five template with the statement, the DISC template with the
  words; \<open>EmptyPrompt\<close> is the empty string that is left when the type of the item is
  neither \<open>likert_5\<close> nor \<open>choice_binary\<close>. Reading \<open>words\<close> of an item that has none
  throws inside the \<open>try\<close> block (lines 152 to 187).
\<close>

datatype prompt =
    MBTIPrompt string string
  | BigFivePrompt string
  | DISCPrompt "string list"
  | EmptyPrompt

definition build_prompt :: "InventoryItem \<Rightarrow> js_error + prompt" where
  "build_prompt item =
     (if item_type item = ''likert_5'' then
        (if dimension item \<noteq> None \<and> dimension item \<noteq> Some [] then
           Inr (MBTIPrompt (leftText item) (rightText item))
         else Inr (BigFivePrompt (item_text item)))
      else if item_type item = ''choice_binary'' then
        (case words item of
           None \<Rightarrow> Inl (Error ''Cannot read properties of undefined'')
         | Some ws \<Rightarrow> Inr (DISCPrompt ws))
      else Inr EmptyPrompt)"

text \<open>
  The model query client as an oracle: \<open>fetch pos sample prompt\<close> is what the call made
  for the item at position \<open>pos\<close> of \<open>allItems\<close> in round \<open>sample\<close> does, return a
  response or throw. A run makes at most one call for each such pair, so every behaviour
  of the remote service is one such function. A response that is not a string makes
  \<open>response.match\<close> throw in the same \<open>try\<close> block and counts as a throw. A call that
  never returns is outside the model.
\<close>

type_synonym query = "nat \<Rightarrow> nat \<Rightarrow> prompt \<Rightarrow> js_error + string"

text \<open>
  The profile, and the row handed to \<open>supabase.from('runs').insert\<close>. The time stamp
  stands for its ISO string.
\<close>

record ModelProfile =
  modelName :: string
  persona :: string
  systemPrompt :: string
  timestamp :: nat
  results :: "string \<rightharpoonup> InventoryResult"

record insert_row =
  model_name :: string
  row_persona :: string
  config_systemPrompt :: string
  row_results :: "string \<rightharpoonup> InventoryResult"
  row_logs :: "log_entry list"
  created_at :: nat

text \<open>
  The state of the sampling loop: the local variables \<open>logs\<close> and \<open>rawScores\<close>, and a
  trace of what the run does to its collaborators and to \<open>rawScores\<close>, in order: a call of
  the query function, an assignment to \<open>rawScores[id]\<close>, a call of a scoring function, an
  insert. The trace is an observation of the model; the code does not compute it.
\<close>

datatype event =
    EvQuery nat nat
  | EvWrite string
  | EvScore string
  | EvInsert insert_row

record run_state =
  st_logs :: "log_entry list"
  st_rawScores :: "string \<rightharpoonup> sample list"
  st_trace :: "event list"

text \<open>
  One round of the sample loop (lines 150 to 220): the score pushed to \<open>itemScores\<close>, the
  line pushed to \<open>logs\<close> and the events of the round. The \<open>catch\<close> clause pushes 3.
\<close>

definition take_sample ::
  "query \<Rightarrow> nat \<Rightarrow> InventoryItem \<Rightarrow> nat \<Rightarrow> sample \<times> log_entry \<times> event list" where
  "take_sample fetch pos item sample =
     (case build_prompt item of
        Inl err \<Rightarrow> (Num 3, LogError (item_id item) err, [])
      | Inr prompt \<Rightarrow>
          (case fetch pos sample prompt of
             Inl err \<Rightarrow> (Num 3, LogError (item_id item) err, [EvQuery pos sample])
           | Inr response \<Rightarrow>
               (fst (parse_response item response), snd (parse_response item response),
                [EvQuery pos sample])))"

text \<open>
  The callback of \<open>chunk.map\<close> (lines 145 to 224): five rounds, then the assignment
  \<open>rawScores[item.id] = itemScores\<close>.
\<close>

definition sample_step ::
  "query \<Rightarrow> nat \<Rightarrow> InventoryItem \<Rightarrow> sample list \<times> run_state \<Rightarrow> nat \<Rightarrow> sample list \<times> run_state" where
  "sample_step fetch pos item acc sample =
     (case (acc, take_sample fetch pos item sample) of
        ((itemScores, st), (score, line, evs)) \<Rightarrow>
          (itemScores @ [score], st\<lparr>st_logs := st_logs st @ [line], st_trace := st_trace st @ evs\<rparr>))"

definition sample_item :: "query \<Rightarrow> run_state \<Rightarrow> nat \<times> InventoryItem \<Rightarrow> run_state" where
  "sample_item fetch st entry =
     (case entry of (pos, item) \<Rightarrow>
        (case foldl (sample_step fetch pos item) ([], st) [0..<5] of
           (itemScores, st') \<Rightarrow>
             st'\<lparr>st_rawScores := (st_rawScores st')(item_id item \<mapsto> itemScores),
                 st_trace := st_trace st' @ [EvWrite (item_id item)]\<rparr>))"

text \<open>
  The loop over the chunks (lines 142 to 227). \<open>Promise.all\<close> runs the items of a chunk
  concurrently; each works on an \<open>itemScores\<close> of its own and assigns its own key, and the
  model takes them one after the other in the order of the chunk.
\<close>

definition CHUNK_SIZE :: nat where
  "CHUNK_SIZE = 5"

function sampling_loop :: "query \<Rightarrow> InventoryItem list \<Rightarrow> nat \<Rightarrow> run_state \<Rightarrow> run_state" where
  "sampling_loop fetch allItems i st =
     (if i < length allItems then
        (let chunk = take CHUNK_SIZE (drop i allItems);
             st' = foldl (sample_item fetch) st (enumerate i chunk);
             st'' = st'\<lparr>st_logs := st_logs st'
                      @ [LogProgress (min (i + length chunk) (length allItems)) (length allItems)]\<rparr>
         in sampling_loop fetch allItems (i + CHUNK_SIZE) st'')
      else st)"
  by pat_completeness auto
termination
  by (relation "measure (\<lambda>(fetch, allItems, i, st). length allItems - i)")
     (auto simp: CHUNK_SIZE_def)

section \<open>runAnalysis\<close>

text \<open>
  What \<open>runAnalysis\<close> takes from its module: the three catalogues and the three scoring
  functions (they are not among the analysed files; a scoring function may throw), the
  query client, the store (\<open>None\<close> when \<open>supabase\<close> is not configured, else what the awaited
  insert of a row does: reply with \<open>{ error }\<close> or throw) and the clock.
\<close>

datatype insert_reply = Reply "string option" | Rejected js_error

record environment =
  BIG_FIVE_ITEMS :: "InventoryItem list"
  DISC_ITEMS :: "InventoryItem list"
  MBTI_ITEMS :: "InventoryItem list"
  calculateBigFiveScores :: "(string \<rightharpoonup> sample list) \<Rightarrow> js_error + InventoryResult"
  calculateDISCScores :: "(string \<rightharpoonup> sample list) \<Rightarrow> js_error + InventoryResult"
  calculateMBTIScores :: "(string \<rightharpoonup> sample list) \<Rightarrow> js_error + InventoryResult"
  fetchOpenRouterResponse :: query
  supabase :: "(insert_row \<Rightarrow> insert_reply) option"
  Date_now :: nat

text \<open>
  What a run leaves: the contents of \<open>logs\<close> and the trace when the function ends, and
  how the promise of \<open>runAnalysis\<close> is settled: fulfilled with a value (\<open>None\<close> is
  \<open>undefined\<close>) or rejected. The function is declared \<open>Promise<void>\<close> and has no
  \<open>return\<close> statement; \<open>profile\<close> is a constant local to its \<open>try\<close> block.
\<close>

datatype completion = Fulfilled "ModelProfile option" | RejectedWith js_error

record run_result =
  final_logs :: "log_entry list"
  final_trace :: "event list"
  outcome :: completion

text \<open>Lines 124 to 133, and the sampling loop started on an empty \<open>rawScores\<close>.\<close>

definition collect_items :: "environment \<Rightarrow> string list \<Rightarrow> InventoryItem list" where
  "collect_items env inventories =
     (if ''bigfive'' \<in> set inventories then BIG_FIVE_ITEMS env else [])
     @ (if ''disc'' \<in> set inventories then DISC_ITEMS env else [])
     @ (if ''mbti'' \<in> set inventories then MBTI_ITEMS env else [])"

definition sampling :: "query \<Rightarrow> InventoryItem list \<Rightarrow> log_entry list \<Rightarrow> run_state" where
  "sampling fetch allItems logs0 =
     sampling_loop fetch allItems 0 \<lparr>st_logs = logs0, st_rawScores = Map.empty, st_trace = []\<rparr>"

text \<open>
  Lines 240 to 250: the requested inventories are scored in the order Big Five, DISC,
  MBTI; the first scoring function that throws ends the block.
\<close>

type_synonym scoring_state = "event list \<times> (js_error + (string \<rightharpoonup> InventoryResult))"

definition score_inventory ::
  "bool \<Rightarrow> string \<Rightarrow> ((string \<rightharpoonup> sample list) \<Rightarrow> js_error + InventoryResult)
    \<Rightarrow> (InventoryResult \<Rightarrow> (string \<rightharpoonup> InventoryResult) \<Rightarrow> (string \<rightharpoonup> InventoryResult))
    \<Rightarrow> (string \<rightharpoonup> sample list) \<Rightarrow> scoring_state \<Rightarrow> scoring_state" where
  "score_inventory requested name calculate store raw acc =
     (case acc of
        (tr, Inl e) \<Rightarrow> (tr, Inl e)
      | (tr, Inr rs) \<Rightarrow>
          if requested then
            (case calculate raw of
               Inl e \<Rightarrow> (tr @ [EvScore name], Inl e)
             | Inr r \<Rightarrow> (tr @ [EvScore name], Inr (store r rs)))
          else (tr, Inr rs))"

definition score_inventories ::
  "environment \<Rightarrow> string list \<Rightarrow> (string \<rightharpoonup> sample list) \<Rightarrow> event list \<Rightarrow> scoring_state" where
  "score_inventories env inventories raw tr =
     score_inventory (''mbti'' \<in> set inventories) ''mbti'' (calculateMBTIScores env)
       (\<lambda>r rs. rs(''mbti'' \<mapsto> r)) raw
       (score_inventory (''disc'' \<in> set inventories) ''disc'' (calculateDISCScores env)
          (\<lambda>r rs. rs(''disc'' \<mapsto> r)) raw
          (score_inventory (''bigfive'' \<in> set inventories) ''bigfive'' (calculateBigFiveScores env)
             (\<lambda>r rs. rs(''bigfive'' \<mapsto> r, ''mbti_derived'' \<mapsto> deriveMBTIFromBigFive r)) raw
             (tr, Inr Map.empty)))"

text \<open>
  Lines 252 to 277, inside the \<open>try\<close> block: the logs and the trace when the block is left,
  and either the error thrown by the awaited insert or nothing. \<open>{ error }\<close> of the reply
  is \<open>Some message\<close> for an error object and \<open>None\<close> for \<open>null\<close>.
\<close>

definition save_profile ::
  "environment \<Rightarrow> ModelProfile \<Rightarrow> log_entry list \<Rightarrow> event list
    \<Rightarrow> log_entry list \<times> event list \<times> js_error option" where
  "save_profile env profile logs2 tr =
     (case supabase env of
        None \<Rightarrow> (logs2 @ [LogNotConfigured, LogCompleted], tr, None)
      | Some insert_into_runs \<Rightarrow>
          (let logs3 = logs2 @ [LogSaving];
               row = \<lparr>model_name = modelName profile,
                      row_persona = (if persona profile = [] then ''Base Model'' else persona profile),
                      config_systemPrompt = systemPrompt profile,
                      row_results = results profile,
                      row_logs = logs3,
                      created_at = timestamp profile\<rparr>;
               tr' = tr @ [EvInsert row]
           in case insert_into_runs row of
                Rejected e \<Rightarrow> (logs3, tr', Some e)
              | Reply (Some message) \<Rightarrow> (logs3 @ [LogDbError message, LogCompleted], tr', None)
              | Reply None \<Rightarrow> (logs3 @ [LogSaved, LogCompleted], tr', None)))"

text \<open>
  The \<open>try\<close> block of \<open>runAnalysis\<close> (lines 120 to 279): the logs and the trace when the
  block is left, and the error that left it, if any.
\<close>

definition analysis_try ::
  "environment \<Rightarrow> string \<Rightarrow> string list \<Rightarrow> string \<Rightarrow> string
    \<Rightarrow> log_entry list \<times> event list \<times> js_error option" where
  "analysis_try env model inventories persona_arg systemPrompt_arg =
     (let allItems = collect_items env inventories;
          logs1 = [LogStart model persona_arg,
                   LogTotal (length allItems) (length allItems * 5)];
          st = sampling (fetchOpenRouterResponse env) allItems logs1;
          logs2 = st_logs st @ [LogCalculating]
      in case score_inventories env inventories (st_rawScores st) (st_trace st) of
           (tr, Inl e) \<Rightarrow> (logs2, tr, Some e)
         | (tr, Inr rs) \<Rightarrow>
             save_profile env
               \<lparr>modelName = model, persona = persona_arg, systemPrompt = systemPrompt_arg,
                timestamp = Date_now env, results = rs\<rparr>
               logs2 tr)"

text \<open>
  \<open>runAnalysis\<close>: the \<open>try\<close> block and its \<open>catch\<close> clause, which logs the error. Either
  way the function ends without a value.
\<close>

definition runAnalysis ::
  "environment \<Rightarrow> string \<Rightarrow> string list \<Rightarrow> string \<Rightarrow> string \<Rightarrow> run_result" where
  "runAnalysis env model inventories persona_arg systemPrompt_arg =
     (case analysis_try env model inventories persona_arg systemPrompt_arg of
        (logs4, tr, Some error) \<Rightarrow>
          \<lparr>final_logs = logs4 @ [LogFatal (error_message error ''Unknown error'')],
           final_trace = tr, outcome = Fulfilled None\<rparr>
      | (logs4, tr, None) \<Rightarrow>
          \<lparr>final_logs = logs4, final_trace = tr, outcome = Fulfilled None\<rparr>)"

section \<open>The scoring endpoints\<close>

text \<open>
  A response is an error with its status and its \<open>error\<close> field, or a success with its
  \<open>data\<close> and its warnings. Each handler is modelled with the list of the scoring functions
  it has invoked. The scoring functions are the ones of \<open>runAnalysis\<close>, here applied to the
  untyped \<open>rawScores\<close> of the body. The request body is \<open>None\<close> when \<open>request.json()\<close>
  throws.
\<close>

datatype http_response =
    ErrorResponse nat string
  | OkResponse json "(string \<times> string) list"

record scoring_functions =
  scoreBigFive :: "json \<Rightarrow> js_error + json"
  scoreMBTI :: "json \<Rightarrow> js_error + json"
  scoreDISC :: "json \<Rightarrow> js_error + json"

text \<open>
  Reading a property (\<open>None\<close> is \<open>undefined\<close>), truthiness, \<open>typeof v === 'object'\<close>,
  the values of \<open>Object.entries(v)\<close>, and \<open>Array.isArray\<close>.
\<close>

definition property :: "json \<Rightarrow> string \<Rightarrow> json option" where
  "property v k = (case v of JObj kvs \<Rightarrow> map_of kvs k | _ \<Rightarrow> None)"

definition truthy :: "json option \<Rightarrow> bool" where
  "truthy v =
     (case v of
        None \<Rightarrow> False
      | Some JNull \<Rightarrow> False
      | Some (JBool b) \<Rightarrow> b
      | Some (JNum x) \<Rightarrow> x \<noteq> 0
      | Some (JStr s) \<Rightarrow> s \<noteq> []
      | Some (JArr _) \<Rightarrow> True
      | Some (JObj _) \<Rightarrow> True)"

definition typeof_object :: "json option \<Rightarrow> bool" where
  "typeof_object v =
     (case v of
        Some JNull \<Rightarrow> True
      | Some (JArr _) \<Rightarrow> True
      | Some (JObj _) \<Rightarrow> True
      | _ \<Rightarrow> False)"

definition entry_values :: "json option \<Rightarrow> json list" where
  "entry_values v =
     (case v of
        Some (JObj kvs) \<Rightarrow> map snd kvs
      | Some (JArr xs) \<Rightarrow> xs
      | _ \<Rightarrow> [])"

definition isArray :: "json \<Rightarrow> bool" where
  "isArray v = (case v of JArr _ \<Rightarrow> True | _ \<Rightarrow> False)"

definition array_items :: "json \<Rightarrow> json list" where
  "array_items v = (case v of JArr xs \<Rightarrow> xs | _ \<Rightarrow> [])"

text \<open>
  \<open>POST /api/bigfive\<close> (lines 23 to 87). Destructuring a \<open>null\<close> body throws into the
  outer \<open>catch\<close>. The loop over the entries returns at the first entry that is not an
  array or that holds a score that is not a number in [1, 5].
\<close>

definition invalid_score :: "json \<Rightarrow> bool" where
  "invalid_score score = (case score of JNum x \<Rightarrow> x < 1 \<or> 5 < x | _ \<Rightarrow> True)"

fun validate_entries :: "json list \<Rightarrow> http_response option" where
  "validate_entries [] = None"
| "validate_entries (entry # rest) =
     (case entry of
        JArr xs \<Rightarrow>
          if list_ex invalid_score xs then Some (ErrorResponse 400 ''Invalid score value'')
          else validate_entries rest
      | _ \<Rightarrow> Some (ErrorResponse 400 ''Invalid score format''))"

definition bigfive_POST ::
  "scoring_functions \<Rightarrow> json option \<Rightarrow> http_response \<times> string list" where
  "bigfive_POST fs request_json =
     (case request_json of
        None \<Rightarrow> (ErrorResponse 500 ''Failed to calculate Big Five scores'', [])
      | Some body \<Rightarrow>
          if body = JNull then (ErrorResponse 500 ''Failed to calculate Big Five scores'', [])
          else
            (let rawScores = property body ''rawScores'' in
             if \<not> (truthy rawScores \<and> typeof_object rawScores) then
               (ErrorResponse 400 ''Invalid request format'', [])
             else
               (case validate_entries (entry_values rawScores) of
                  Some rejection \<Rightarrow> (rejection, [])
                | None \<Rightarrow>
                    (case scoreBigFive fs (the rawScores) of
                       Inl e \<Rightarrow> (ErrorResponse 500 ''Failed to calculate Big Five scores'', [''bigfive''])
                     | Inr r \<Rightarrow> (OkResponse r [], [''bigfive''])))))"

text \<open>
  \<open>POST /api/psychometrics\<close> (lines 26 to 145). Each requested calculation runs in a
  \<open>try\<close> of its own and adds either a result or an error.
\<close>

definition validInventories :: "string list" where
  "validInventories = [''bigfive'', ''mbti'', ''disc'']"

type_synonym calculation = "(string \<times> json) list \<times> (string \<times> string) list \<times> string list"

definition calculate ::
  "json list \<Rightarrow> string \<Rightarrow> (json \<Rightarrow> js_error + json) \<Rightarrow> json \<Rightarrow> calculation \<Rightarrow> calculation" where
  "calculate inventories name f raw acc =
     (case acc of (computed, errors, calls) \<Rightarrow>
        if JStr name \<in> set inventories then
          (case f raw of
             Inr r \<Rightarrow> (computed @ [(name, r)], errors, calls @ [name])
           | Inl e \<Rightarrow> (computed, errors @ [(name, error_message e ''Calculation failed'')], calls @ [name]))
        else (computed, errors, calls))"

definition psychometrics_POST ::
  "scoring_functions \<Rightarrow> json option \<Rightarrow> http_response \<times> string list" where
  "psychometrics_POST fs request_json =
     (case request_json of
        None \<Rightarrow> (ErrorResponse 500 ''Failed to calculate psychometric scores'', [])
      | Some body \<Rightarrow>
          if body = JNull then (ErrorResponse 500 ''Failed to calculate psychometric scores'', [])
          else
            (let rawScores = property body ''rawScores'';
                 inventories =
                   (case property body ''inventories'' of
                      None \<Rightarrow> JArr (map JStr [''bigfive'', ''mbti'', ''disc''])
                    | Some v \<Rightarrow> v)
             in
             if \<not> (truthy rawScores \<and> typeof_object rawScores) then
               (ErrorResponse 400 ''Invalid request format'', [])
             else if \<not> (isArray inventories \<and> array_items inventories \<noteq> []) then
               (ErrorResponse 400 ''Invalid inventories parameter'', [])
             else if list_ex (\<lambda>inventory. inventory \<notin> set (map JStr validInventories))
                       (array_items inventories) then
               (ErrorResponse 400 ''Invalid inventory name'', [])
             else if list_ex (\<lambda>scores. \<not> isArray scores) (entry_values rawScores) then
               (ErrorResponse 400 ''Invalid score format'', [])
             else
               (case calculate (array_items inventories) ''disc'' (scoreDISC fs) (the rawScores)
                      (calculate (array_items inventories) ''mbti'' (scoreMBTI fs) (the rawScores)
                         (calculate (array_items inventories) ''bigfive'' (scoreBigFive fs)
                            (the rawScores) ([], [], []))) of
                  (computed, errors, calls) \<Rightarrow>
                    if computed = [] then (ErrorResponse 500 ''All calculations failed'', calls)
                    else (OkResponse (JObj computed) errors, calls))))"

section \<open>Observations on a run\<close>

text \<open>
  The item ids assigned in \<open>rawScores\<close>, in the order of the assignments, read off the
  trace; the events that sampling can leave in the trace; the five samples of one item;
  and the raw-score map after a list of (position, item) pairs has been sampled.
\<close>

definition written :: "event list \<Rightarrow> string list" where
  "written es = concat (map (\<lambda>e. case e of EvWrite k \<Rightarrow> [k] | _ \<Rightarrow> []) es)"

definition sampling_event :: "event \<Rightarrow> bool" where
  "sampling_event e = (case e of EvQuery _ _ \<Rightarrow> True | EvWrite _ \<Rightarrow> True | _ \<Rightarrow> False)"

definition item_samples :: "query \<Rightarrow> nat \<Rightarrow> InventoryItem \<Rightarrow> sample list" where
  "item_samples fetch pos item = map (\<lambda>sample. fst (take_sample fetch pos item sample)) [0..<5]"

definition record_items ::
  "query \<Rightarrow> (string \<rightharpoonup> sample list) \<Rightarrow> (nat \<times> InventoryItem) list \<Rightarrow> (string \<rightharpoonup> sample list)" where
  "record_items fetch m entries =
     foldl (\<lambda>m (pos, item). m(item_id item \<mapsto> item_samples fetch pos item)) m entries"

text \<open>
  \<open>psi_of r k\<close> is \<open>r.psi?.[k]\<close>. \<open>big_five_result\<close> is an \<open>InventoryResult\<close> that carries
  the given domain scores; the derivation reads no other field.
\<close>

definition psi_of :: "InventoryResult \<Rightarrow> string \<Rightarrow> number option" where
  "psi_of r k = (case psi r of None \<Rightarrow> None | Some m \<Rightarrow> m k)"

definition big_five_result :: "(string \<rightharpoonup> number) \<Rightarrow> InventoryResult" where
  "big_five_result domains =
     \<lparr>inventoryName = ''Big Five (IPIP-NEO-120)'', rawScores = Map.empty, traitScores = domains,
      type = None, psi = None, details = []\<rparr>"

text \<open>
  The rows handed to the persistence collaborator, read off the trace, and the requested
  inventories in the order in which \<open>runAnalysis\<close> scores them.
\<close>

definition inserted :: "event list \<Rightarrow> insert_row list" where
  "inserted es = concat (map (\<lambda>e. case e of EvInsert row \<Rightarrow> [row] | _ \<Rightarrow> []) es)"

definition requested :: "string list \<Rightarrow> string list" where
  "requested inventories = filter (\<lambda>name. name \<in> set inventories) [''bigfive'', ''disc'', ''mbti'']"

section \<open>Example inputs\<close>

text \<open>
  An environment with one Big Five item, a model that always answers \<open>4\<close>, a Big Five
  scoring function that returns fixed domain scores, and a store that answers every insert
  with an error; and a request body for the scoring endpoints whose only entry holds an
  out-of-range score and a string.
\<close>

definition example_env :: environment where
  "example_env =
     \<lparr>BIG_FIVE_ITEMS =
        [\<lparr>item_id = ''N1'', item_type = ''likert_5'', item_text = ''Worry about things'',
          dimension = None, leftText = [], rightText = [], words = None\<rparr>],
      DISC_ITEMS = [],
      MBTI_ITEMS = [],
      calculateBigFiveScores =
        (\<lambda>raw. Inr (big_five_result
           [''N'' \<mapsto> 96, ''E'' \<mapsto> 72, ''O'' \<mapsto> 72, ''A'' \<mapsto> 72, ''C'' \<mapsto> 72])),
      calculateDISCScores = (\<lambda>raw. Inl Thrown),
      calculateMBTIScores = (\<lambda>raw. Inl Thrown),
      fetchOpenRouterResponse = (\<lambda>pos sample prompt. Inr ''4''),
      supabase = Some (\<lambda>row. Reply (Some ''connection refused'')),
      Date_now = 1700000000000\<rparr>"

definition out_of_range_body :: json where
  "out_of_range_body =
     JObj [(''rawScores'', JObj [(''N1'', JArr [JNum 4, JNum 7, JStr ''high''])]),
           (''inventories'', JArr [JStr ''bigfive''])]"

section \<open>The specification's vocabulary for responses\<close>

text \<open>
  A standalone digit 1 to 5 at position \<open>i\<close>: the character there is one of \<open>1\<close> .. \<open>5\<close>
  and neither neighbour, where there is one, is a letter, a digit or an underscore.
\<close>

definition standalone_digit :: "string \<Rightarrow> nat \<Rightarrow> bool" where
  "standalone_digit s i =
     (i < length s \<and> s ! i \<in> set ''12345''
      \<and> (if i = 0 then True else \<not> is_word_char (s ! (i - 1)))
      \<and> (if Suc i = length s then True else \<not> is_word_char (s ! Suc i)))"

definition no_digit :: "string \<Rightarrow> bool" where
  "no_digit s = (\<not> list_ex is_digit s)"

definition digit_run :: "string \<Rightarrow> bool" where
  "digit_run s = (s \<noteq> [] \<and> list_all is_digit s)"

text \<open>
  The claim of the specification on the two decoded indices of a forced choice: the
  0-based \<open>most\<close> and \<open>least\<close> that the parser computes lie in [0, 3].
\<close>

definition index_in_range :: "int option \<Rightarrow> bool" where
  "index_in_range d = (case d of Some n \<Rightarrow> 0 \<le> n \<and> n \<le> 3 | None \<Rightarrow> False)"

definition decoded_in_range :: "string \<Rightarrow> bool" where
  "decoded_in_range response =
     (case digit_matches response of
        m0 # m1 # _ \<Rightarrow>
          index_in_range (double_sub (parseInt m0) (Some 1))
          \<and> index_in_range (double_sub (parseInt m1) (Some 1))
      | _ \<Rightarrow> True)"

text \<open>
  The sample that the words of the specification give: the first digit found is the
  1-based "most" index, the second digit found the 1-based "least" index, both are made
  0-based and encoded as \<open>most * 10 + least\<close>; with fewer than two digits the sample is 0.
\<close>

definition claimed_sample :: "string \<Rightarrow> sample" where
  "claimed_sample response =
     (case filter is_digit response of
        a # b # _ \<Rightarrow> Num (of_int ((digit_value a - 1) * 10 + (digit_value b - 1)))
      | _ \<Rightarrow> Num 0)"

text \<open>
  The words of the specification on the derived MBTI, applied to a domain score as it
  stands: the letter of a polarity pair, the PSI, and the value of the opposing pole.
\<close>

definition claimed_letter :: "number \<Rightarrow> char \<Rightarrow> char \<Rightarrow> char" where
  "claimed_letter score high low = (if 72 \<le> score then high else low)"

definition claimed_psi :: "number \<Rightarrow> number" where
  "claimed_psi score = \<bar>score - 72\<bar> / 48"

definition claimed_opposite :: "number \<Rightarrow> number" where
  "claimed_opposite score = 144 - score"

text \<open>
  An entry of the stored results against a scoring function: when the inventory is
  requested, the entry is what the function returns on the raw scores; otherwise there is
  no entry.
\<close>

definition scored_as ::
  "((string \<rightharpoonup> sample list) \<Rightarrow> js_error + InventoryResult) \<Rightarrow> (string \<rightharpoonup> sample list)
    \<Rightarrow> bool \<Rightarrow> InventoryResult option \<Rightarrow> bool" where
  "scored_as score_fn raw wanted entry =
     (if wanted then (case score_fn raw of Inr r \<Rightarrow> entry = Some r | Inl e \<Rightarrow> False)
      else entry = None)"

section \<open>Properties of the response parser\<close>

lemma digit_value_12345:
  "c \<in> set ''12345'' \<Longrightarrow> digit_value c \<in> {1, 2, 3, 4, 5}"
  by (auto simp: digit_value_def)

lemma is_word_char_12345: "c \<in> set ''12345'' \<Longrightarrow> is_word_char c"
  by (auto simp: is_word_char_def)

lemma is_digit_12345: "c \<in> set ''12345'' \<Longrightarrow> is_digit c"
  by (auto simp: is_digit_def)

lemma round_to_double_exact: "\<bar>n\<bar> \<le> 2 ^ 53 \<Longrightarrow> round_to_double n = Some n"
  by (simp add: round_to_double_def)

lemma digit_value_range: "is_digit c \<Longrightarrow> 0 \<le> digit_value c \<and> digit_value c \<le> 9"
  by (auto simp: is_digit_def digit_value_def)

lemma parseInt_single: "is_digit c \<Longrightarrow> parseInt [c] = Some (digit_value c)"
  using digit_value_range[of c]
  by (simp add: parseInt_def decimal_def round_to_double_exact)

lemma likert_match_at_standalone: "likert_match_at s i = standalone_digit s i"
proof (cases "i < length s \<and> s ! i \<in> set ''12345''")
  case False
  then show ?thesis
    by (auto simp: likert_match_at_def standalone_digit_def)
next
  case True
  then have w: "is_word_char (s ! i)" and i: "i < length s"
    by (simp_all add: is_word_char_12345)
  have before: "word_boundary s i = (if i = 0 then True else \<not> is_word_char (s ! (i - 1)))"
    using w i by (auto simp: word_boundary_def)
  have after: "word_boundary s (Suc i)
      = (if Suc i = length s then True else \<not> is_word_char (s ! Suc i))"
    using w i by (auto simp: word_boundary_def)
  show ?thesis
    using True before after by (simp add: likert_match_at_def standalone_digit_def)
qed

lemma likert_match_None:
  "(\<forall>i. \<not> standalone_digit s i) \<Longrightarrow> likert_match s = None"
  by (simp add: likert_match_def find_None_iff likert_match_at_standalone)

lemma likert_match_Some:
  assumes "standalone_digit s i" and "\<forall>j<i. \<not> standalone_digit s j"
  shows "likert_match s = Some i"
proof -
  have i: "i < length s" using assms(1) by (simp add: standalone_digit_def)
  have "\<exists>k<length [0..<length s]. likert_match_at s ([0..<length s] ! k)
          \<and> i = [0..<length s] ! k \<and> (\<forall>j<k. \<not> likert_match_at s ([0..<length s] ! j))"
    using assms i by (intro exI[of _ i]) (simp add: likert_match_at_standalone)
  then show ?thesis
    unfolding likert_match_def find_Some_iff by simp
qed

lemma likert_match_sound: "likert_match s = Some i \<Longrightarrow> standalone_digit s i"
  by (auto simp: likert_match_def find_Some_iff likert_match_at_standalone)

lemma parse_likert_range:
  assumes "item_type item \<noteq> ''choice_binary''"
  shows "fst (parse_response item s) \<in> {Num 1, Num 2, Num 3, Num 4, Num 5}"
proof (cases "likert_match s")
  case None
  then show ?thesis using assms by (simp add: parse_response_def)
next
  case (Some i)
  then have c: "s ! i \<in> set ''12345''"
    using likert_match_sound[OF Some] by (simp add: standalone_digit_def)
  have "parseInt [s ! i] = Some (digit_value (s ! i))"
    using c by (simp add: parseInt_single is_digit_12345)
  moreover have "digit_value (s ! i) \<in> {1, 2, 3, 4, 5}"
    using c by (rule digit_value_12345)
  ultimately show ?thesis
    using assms Some by (auto simp: parse_response_def Let_def sample_of_def)
qed

text \<open>
  C3. For every response string to a Likert5 item the recorded sample is the value of the
  first standalone digit 1 to 5 of the string, and 3 when the string has no standalone
  digit 1 to 5; the parser is a total function, and the sample is always one of
  1, 2, 3, 4, 5 (a finite number).
\<close>

theorem likert_first_standalone_digit:
  assumes "item_type item = ''likert_5''"
  shows "fst (parse_response item s) \<in> {Num 1, Num 2, Num 3, Num 4, Num 5}
    \<and> ((\<forall>i. \<not> standalone_digit s i) \<longrightarrow> fst (parse_response item s) = Num 3)
    \<and> (standalone_digit s i \<and> (\<forall>j<i. \<not> standalone_digit s j)
          \<longrightarrow> fst (parse_response item s) = Num (of_int (digit_value (s ! i))))"
proof -
  have t: "item_type item \<noteq> ''choice_binary''" using assms by simp
  have none: "fst (parse_response item s) = Num 3" if "\<forall>i. \<not> standalone_digit s i"
    using t likert_match_None[OF that] by (simp add: parse_response_def)
  have first: "fst (parse_response item s) = Num (of_int (digit_value (s ! i)))"
    if "standalone_digit s i" and "\<forall>j<i. \<not> standalone_digit s j"
  proof -
    have "s ! i \<in> set ''12345''" using that(1) by (simp add: standalone_digit_def)
    then have "parseInt [s ! i] = Some (digit_value (s ! i))"
      by (simp add: parseInt_single is_digit_12345)
    then show ?thesis
      using t likert_match_Some[OF that] by (simp add: parse_response_def Let_def sample_of_def)
  qed
  show ?thesis using parse_likert_range[OF t] none first by blast
qed

theorem likert_first_standalone_digit_witness:
  "fst (parse_response
          \<lparr>item_id = ''N1'', item_type = ''likert_5'', item_text = ''Worry about things'',
           dimension = None, leftText = [], rightText = [], words = None\<rparr> ''ok 4'') = Num 4
   \<and> fst (parse_response
          \<lparr>item_id = ''N1'', item_type = ''likert_5'', item_text = ''Worry about things'',
           dimension = None, leftText = [], rightText = [], words = None\<rparr> ''10'') = Num 3"
proof -
  let ?item = "\<lparr>item_id = ''N1'', item_type = ''likert_5'', item_text = ''Worry about things'',
     dimension = None, leftText = [], rightText = [], words = None\<rparr>"
  have t: "item_type ?item = ''likert_5''" by simp
  have a: "standalone_digit ''ok 4'' 3 \<and> (\<forall>j<3. \<not> standalone_digit ''ok 4'' j)"
    by (simp add: standalone_digit_def is_word_char_def less_Suc_eq numeral_3_eq_3)
  have b: "\<forall>i. \<not> standalone_digit ''10'' i"
    by (auto simp: standalone_digit_def is_word_char_def less_Suc_eq numeral_2_eq_2)
  have "fst (parse_response ?item ''ok 4'') = Num (of_int (digit_value (''ok 4'' ! 3)))"
    using likert_first_standalone_digit[OF t, of "''ok 4''" 3] a by blast
  moreover have "fst (parse_response ?item ''10'') = Num 3"
    using likert_first_standalone_digit[OF t, of "''10''"] b by blast
  ultimately show ?thesis by (simp add: digit_value_def)
qed

lemma digit_matches_skip: "no_digit pre \<Longrightarrow> digit_matches (pre @ s) = digit_matches s"
  by (induction pre) (auto simp: no_digit_def)

lemma digit_matches_none: "no_digit s \<Longrightarrow> digit_matches s = []"
  using digit_matches_skip[of s "[]"] by simp

lemma digit_matches_run:
  assumes "digit_run d" and "rest = [] \<or> \<not> is_digit (hd rest)"
  shows "digit_matches (d @ rest) = d # digit_matches rest"
proof -
  obtain c cs where d: "d = c # cs"
    using assms(1) by (cases d) (auto simp: digit_run_def)
  have c: "is_digit c" and cs: "\<forall>x\<in>set cs. is_digit x"
    using assms(1) d by (auto simp: digit_run_def list_all_iff)
  have tw: "takeWhile is_digit (cs @ rest) = cs"
    using cs assms(2) by (cases rest) auto
  have dw: "dropWhile is_digit (cs @ rest) = rest"
    using cs assms(2) by (cases rest) auto
  show ?thesis using c tw dw d by simp
qed

lemma no_digit_hd: "no_digit s \<Longrightarrow> s = [] \<or> \<not> is_digit (hd s)"
  by (cases s) (auto simp: no_digit_def)

lemma digit_matches_two_runs:
  assumes "no_digit pre" "digit_run d1" "sep \<noteq> []" "no_digit sep" "digit_run d2"
    and "rest = [] \<or> \<not> is_digit (hd rest)"
  shows "digit_matches (pre @ d1 @ sep @ d2 @ rest) = d1 # d2 # digit_matches rest"
proof -
  have h: "sep @ d2 @ rest = [] \<or> \<not> is_digit (hd (sep @ d2 @ rest))"
    using no_digit_hd[OF assms(4)] assms(3) by simp
  have "digit_matches (pre @ d1 @ sep @ d2 @ rest) = digit_matches (d1 @ sep @ d2 @ rest)"
    by (rule digit_matches_skip[OF assms(1)])
  also have "\<dots> = d1 # digit_matches (sep @ d2 @ rest)"
    by (rule digit_matches_run[OF assms(2) h])
  also have "digit_matches (sep @ d2 @ rest) = digit_matches (d2 @ rest)"
    by (rule digit_matches_skip[OF assms(4)])
  also have "\<dots> = d2 # digit_matches rest"
    by (rule digit_matches_run[OF assms(5,6)])
  finally show ?thesis .
qed

lemma digit_matches_one_run:
  assumes "no_digit pre" "list_all is_digit d" "no_digit post"
  shows "length (digit_matches (pre @ d @ post)) < 2"
proof (cases "d = []")
  case True
  have "no_digit (pre @ post)" using assms(1,3) by (simp add: no_digit_def)
  then show ?thesis using True digit_matches_none by simp
next
  case False
  then have r: "digit_run d" using assms(2) by (simp add: digit_run_def)
  have "digit_matches (pre @ d @ post) = digit_matches (d @ post)"
    by (rule digit_matches_skip[OF assms(1)])
  also have "\<dots> = d # digit_matches post"
    by (rule digit_matches_run[OF r no_digit_hd[OF assms(3)]])
  finally show ?thesis using digit_matches_none[OF assms(3)] by simp
qed

lemma decimal_nonneg: "list_all is_digit d \<Longrightarrow> 0 \<le> decimal d"
proof -
  have "0 \<le> acc \<Longrightarrow> list_all is_digit d \<Longrightarrow> 0 \<le> foldl (\<lambda>acc c. 10 * acc + digit_value c) acc d"
    for acc
  proof (induction d arbitrary: acc)
    case Nil
    then show ?case by simp
  next
    case (Cons c d)
    have "0 \<le> 10 * acc + digit_value c"
      using Cons.prems digit_value_range[of c] by simp
    then show ?case using Cons.IH Cons.prems by simp
  qed
  then show "list_all is_digit d \<Longrightarrow> 0 \<le> decimal d"
    by (simp add: decimal_def)
qed

lemma parseInt_run: "digit_run d \<Longrightarrow> parseInt d = round_to_double (decimal d)"
proof -
  assume d: "digit_run d"
  then have "takeWhile is_digit d = d"
    by (simp add: digit_run_def list_all_iff takeWhile_eq_all_conv)
  moreover have "d \<noteq> []" using d by (simp add: digit_run_def)
  ultimately show ?thesis by (simp only: parseInt_def if_False)
qed

lemma exact_encoding:
  assumes "0 \<le> n1" "0 \<le> n2" "10 * n1 + n2 \<le> 2 ^ 53"
  shows "double_sub (round_to_double n1) (Some 1) = Some (n1 - 1)"
    and "double_sub (round_to_double n2) (Some 1) = Some (n2 - 1)"
    and "double_add (double_mul (Some (n1 - 1)) (Some 10)) (Some (n2 - 1))
          = Some ((n1 - 1) * 10 + (n2 - 1))"
proof -
  have r1: "round_to_double n1 = Some n1" "round_to_double n2 = Some n2"
    using assms by (simp_all add: round_to_double_exact)
  have r2: "round_to_double (n1 - 1) = Some (n1 - 1)" "round_to_double (n2 - 1) = Some (n2 - 1)"
    using assms by (simp_all add: round_to_double_exact)
  have r3: "round_to_double ((n1 - 1) * 10) = Some ((n1 - 1) * 10)"
    using assms by (simp add: round_to_double_exact)
  have r4: "round_to_double ((n1 - 1) * 10 + (n2 - 1)) = Some ((n1 - 1) * 10 + (n2 - 1))"
    using assms by (simp add: round_to_double_exact)
  show "double_sub (round_to_double n1) (Some 1) = Some (n1 - 1)"
    by (simp add: double_sub_def r1 r2)
  show "double_sub (round_to_double n2) (Some 1) = Some (n2 - 1)"
    by (simp add: double_sub_def r1 r2)
  show "double_add (double_mul (Some (n1 - 1)) (Some 10)) (Some (n2 - 1))
          = Some ((n1 - 1) * 10 + (n2 - 1))"
    unfolding double_add_def double_mul_def
    by (simp only: prod.case option.case r3 r4)
qed

text \<open>
  Beyond \<open>2^53\<close> the sample is the rounded one: for the numbers 99999999999999999999 and 1
  it is \<open>10^21\<close>, not 999999999999999999980.
\<close>

lemma forced_choice_rounds:
  "fst (parse_response
          \<lparr>item_id = ''disc_1'', item_type = ''choice_binary'', item_text = [],
           dimension = None, leftText = [], rightText = [],
           words = Some [''Bold'', ''Lively'', ''Calm'', ''Exact'']\<rparr> ''99999999999999999999, 1'')
     = Num 1000000000000000000000"
proof -
  have "round_to_double 99999999999999999999 = Some 100000000000000000000"
    "round_to_double 1000000000000000000000 = Some 1000000000000000000000"
    by code_simp+
  then show ?thesis
    by (simp add: parse_response_def parseInt_def decimal_def is_digit_def digit_value_def
        double_sub_def double_add_def double_mul_def sample_of_def round_to_double_exact Let_def)
qed

text \<open>
  A run of 309 nines denotes a number above the largest double: it is read as Infinity,
  and the sample is not finite.
\<close>

lemma forced_choice_overflows:
  "fst (parse_response
          \<lparr>item_id = ''disc_1'', item_type = ''choice_binary'', item_text = [],
           dimension = None, leftText = [], rightText = [],
           words = Some [''Bold'', ''Lively'', ''Calm'', ''Exact'']\<rparr>
          (replicate 309 CHR ''9'' @ '', 1''))
     = NotFinite"
  by code_simp

text \<open>
  C4 (as amended). For a ForcedChoicePair item the parser takes the first two maximal runs
  of decimal digits of the response (not its first two digits), reads them as the 1-based
  numbers \<open>n1\<close> and \<open>n2\<close> of the "most" and the "least" word, subtracts 1 from each and
  records \<open>most * 10 + least\<close>, all in double arithmetic and with no range check. When
  \<open>10 * n1 + n2\<close> is at most \<open>2^53\<close> that arithmetic is exact: \<open>most = n1 - 1\<close>,
  \<open>least = n2 - 1\<close> and the sample is \<open>(n1 - 1) * 10 + (n2 - 1)\<close>, and the two indices
  lie in [0, 3] exactly when both numbers lie in 1 .. 4. When the response holds fewer than two
  runs of digits the recorded sample is 0.
\<close>

theorem forced_choice_digit_runs:
  assumes "item_type item = ''choice_binary''"
  shows "(no_digit pre \<and> digit_run d1 \<and> sep \<noteq> [] \<and> no_digit sep \<and> digit_run d2
            \<and> (rest = [] \<or> \<not> is_digit (hd rest))
          \<longrightarrow> fst (parse_response item (pre @ d1 @ sep @ d2 @ rest))
                = sample_of (double_add
                    (double_mul (double_sub (parseInt d1) (Some 1)) (Some 10))
                    (double_sub (parseInt d2) (Some 1))))
    \<and> (no_digit pre \<and> digit_run d1 \<and> sep \<noteq> [] \<and> no_digit sep \<and> digit_run d2
            \<and> (rest = [] \<or> \<not> is_digit (hd rest)) \<and> 10 * decimal d1 + decimal d2 \<le> 2 ^ 53
          \<longrightarrow> double_sub (parseInt d1) (Some 1) = Some (decimal d1 - 1)
              \<and> double_sub (parseInt d2) (Some 1) = Some (decimal d2 - 1)
              \<and> fst (parse_response item (pre @ d1 @ sep @ d2 @ rest))
                  = Num (of_int ((decimal d1 - 1) * 10 + (decimal d2 - 1)))
              \<and> decoded_in_range (pre @ d1 @ sep @ d2 @ rest)
                  = (1 \<le> decimal d1 \<and> decimal d1 \<le> 4 \<and> 1 \<le> decimal d2 \<and> decimal d2 \<le> 4))
    \<and> (no_digit pre \<and> list_all is_digit d \<and> no_digit post
          \<longrightarrow> fst (parse_response item (pre @ d @ post)) = Num 0)"
proof -
  have runs: "fst (parse_response item (pre @ d1 @ sep @ d2 @ rest))
                = sample_of (double_add
                    (double_mul (double_sub (parseInt d1) (Some 1)) (Some 10))
                    (double_sub (parseInt d2) (Some 1)))"
    if h: "no_digit pre \<and> digit_run d1 \<and> sep \<noteq> [] \<and> no_digit sep \<and> digit_run d2
            \<and> (rest = [] \<or> \<not> is_digit (hd rest))"
  proof -
    have "digit_matches (pre @ d1 @ sep @ d2 @ rest) = d1 # d2 # digit_matches rest"
      using h by (intro digit_matches_two_runs) simp_all
    then show ?thesis
      using assms by (simp add: parse_response_def Let_def)
  qed
  have exact: "double_sub (parseInt d1) (Some 1) = Some (decimal d1 - 1)
              \<and> double_sub (parseInt d2) (Some 1) = Some (decimal d2 - 1)
              \<and> fst (parse_response item (pre @ d1 @ sep @ d2 @ rest))
                  = Num (of_int ((decimal d1 - 1) * 10 + (decimal d2 - 1)))
              \<and> decoded_in_range (pre @ d1 @ sep @ d2 @ rest)
                  = (1 \<le> decimal d1 \<and> decimal d1 \<le> 4 \<and> 1 \<le> decimal d2 \<and> decimal d2 \<le> 4)"
    if h: "no_digit pre \<and> digit_run d1 \<and> sep \<noteq> [] \<and> no_digit sep \<and> digit_run d2
            \<and> (rest = [] \<or> \<not> is_digit (hd rest)) \<and> 10 * decimal d1 + decimal d2 \<le> 2 ^ 53"
  proof -
    have n: "0 \<le> decimal d1" "0 \<le> decimal d2"
      using h by (simp_all add: decimal_nonneg digit_run_def)
    have b: "10 * decimal d1 + decimal d2 \<le> 2 ^ 53" using h by simp
    have p: "parseInt d1 = round_to_double (decimal d1)" "parseInt d2 = round_to_double (decimal d2)"
      using h by (simp_all add: parseInt_run)
    have m: "double_sub (parseInt d1) (Some 1) = Some (decimal d1 - 1)"
      unfolding p by (rule exact_encoding(1)[OF n b])
    have l: "double_sub (parseInt d2) (Some 1) = Some (decimal d2 - 1)"
      unfolding p by (rule exact_encoding(2)[OF n b])
    have "fst (parse_response item (pre @ d1 @ sep @ d2 @ rest))
        = sample_of (double_add
            (double_mul (double_sub (parseInt d1) (Some 1)) (Some 10))
            (double_sub (parseInt d2) (Some 1)))"
      using h by (intro runs) simp
    then have s: "fst (parse_response item (pre @ d1 @ sep @ d2 @ rest))
        = Num (of_int ((decimal d1 - 1) * 10 + (decimal d2 - 1)))"
      unfolding m l exact_encoding(3)[OF n b] by (simp add: sample_of_def)
    have "digit_matches (pre @ d1 @ sep @ d2 @ rest) = d1 # d2 # digit_matches rest"
      using h by (intro digit_matches_two_runs) simp_all
    then have r: "decoded_in_range (pre @ d1 @ sep @ d2 @ rest)
        = (1 \<le> decimal d1 \<and> decimal d1 \<le> 4 \<and> 1 \<le> decimal d2 \<and> decimal d2 \<le> 4)"
      unfolding decoded_in_range_def by (auto simp: m l index_in_range_def)
    show ?thesis using m l s r by simp
  qed
  have few: "fst (parse_response item (pre @ d @ post)) = Num 0"
    if h: "no_digit pre \<and> list_all is_digit d \<and> no_digit post"
  proof -
    have "length (digit_matches (pre @ d @ post)) < 2"
      using h by (intro digit_matches_one_run) simp_all
    then show ?thesis
      using assms by (simp add: parse_response_def Let_def)
  qed
  show ?thesis using runs exact few by blast
qed

theorem forced_choice_digit_runs_witness:
  "fst (parse_response
          \<lparr>item_id = ''disc_1'', item_type = ''choice_binary'', item_text = [],
           dimension = None, leftText = [], rightText = [],
           words = Some [''Bold'', ''Lively'', ''Calm'', ''Exact'']\<rparr> ''Most 2, least 12.'') = Num 21
   \<and> fst (parse_response
          \<lparr>item_id = ''disc_1'', item_type = ''choice_binary'', item_text = [],
           dimension = None, leftText = [], rightText = [],
           words = Some [''Bold'', ''Lively'', ''Calm'', ''Exact'']\<rparr> ''x12!'') = Num 0"
proof -
  let ?item = "\<lparr>item_id = ''disc_1'', item_type = ''choice_binary'', item_text = [],
           dimension = None, leftText = [], rightText = [],
           words = Some [''Bold'', ''Lively'', ''Calm'', ''Exact'']\<rparr>"
  have t: "item_type ?item = ''choice_binary''" by simp
  have v: "decimal ''2'' = 2" "decimal ''12'' = 12"
    by (simp_all add: decimal_def digit_value_def)
  have a: "no_digit ''Most '' \<and> digit_run ''2'' \<and> '', least '' \<noteq> [] \<and> no_digit '', least ''
      \<and> digit_run ''12'' \<and> (''.'' = [] \<or> \<not> is_digit (hd ''.''))
      \<and> 10 * decimal ''2'' + decimal ''12'' \<le> 2 ^ 53"
    by (simp add: no_digit_def digit_run_def is_digit_def v)
  have b: "no_digit ''x'' \<and> list_all is_digit ''12'' \<and> no_digit ''!''"
    by (simp add: no_digit_def is_digit_def)
  have "fst (parse_response ?item (''Most '' @ ''2'' @ '', least '' @ ''12'' @ ''.''))
      = Num (of_int ((decimal ''2'' - 1) * 10 + (decimal ''12'' - 1)))"
    using forced_choice_digit_runs[where item = ?item and pre = "''Most ''" and ?d1.0 = "''2''"
        and sep = "'', least ''" and ?d2.0 = "''12''" and rest = "''.''"] t a
    by blast
  moreover have "fst (parse_response ?item (''x'' @ ''12'' @ ''!'')) = Num 0"
    using forced_choice_digit_runs[where item = ?item and pre = "''x''" and d = "''12''"
        and post = "''!''"] t b
    by blast
  ultimately show ?thesis by (simp add: v)
qed

text \<open>
  The claim as stated fails on the code. The response \<open>7, 9\<close> is decoded to most = 6 and
  least = 8, outside [0, 3], and the recorded sample is 68. The response \<open>12, 3\<close> holds
  the digits 1 and 2 first, for which the claim gives the sample 1; the parser reads the
  runs 12 and 3 and records 112. The response \<open>12\<close> holds two digits, for which the
  claim gives 1; it holds one run, and the parser records 0.
\<close>

theorem forced_choice_out_of_range:
  "fst (parse_response
          \<lparr>item_id = ''disc_1'', item_type = ''choice_binary'', item_text = [],
           dimension = None, leftText = [], rightText = [],
           words = Some [''Bold'', ''Lively'', ''Calm'', ''Exact'']\<rparr> ''7, 9'') = Num 68
   \<and> \<not> decoded_in_range ''7, 9''
   \<and> fst (parse_response
          \<lparr>item_id = ''disc_1'', item_type = ''choice_binary'', item_text = [],
           dimension = None, leftText = [], rightText = [],
           words = Some [''Bold'', ''Lively'', ''Calm'', ''Exact'']\<rparr> ''12, 3'') = Num 112
   \<and> claimed_sample ''12, 3'' = Num 1
   \<and> fst (parse_response
          \<lparr>item_id = ''disc_1'', item_type = ''choice_binary'', item_text = [],
           dimension = None, leftText = [], rightText = [],
           words = Some [''Bold'', ''Lively'', ''Calm'', ''Exact'']\<rparr> ''12'') = Num 0
   \<and> claimed_sample ''12'' = Num 1"
  by (simp add: parse_response_def decoded_in_range_def index_in_range_def claimed_sample_def
      parseInt_def decimal_def is_digit_def digit_value_def double_sub_def double_add_def
      double_mul_def sample_of_def round_to_double_exact Let_def)

section \<open>Properties of the sampling loop\<close>

lemma written_append [simp]: "written (a @ b) = written a @ written b"
  by (simp add: written_def)

lemma written_simps [simp]:
  "written [] = []" "written (EvWrite k # es) = k # written es"
  "written (EvQuery p s # es) = written es"
  by (simp_all add: written_def)

lemma take_sample_events:
  "list_all sampling_event (snd (snd (take_sample fetch pos item sample)))"
  "written (snd (snd (take_sample fetch pos item sample))) = []"
  by (simp_all add: take_sample_def sampling_event_def split: sum.splits)

lemma sample_steps:
  "fst (foldl (sample_step fetch pos item) (acc, st) xs)
      = acc @ map (\<lambda>sample. fst (take_sample fetch pos item sample)) xs
   \<and> st_rawScores (snd (foldl (sample_step fetch pos item) (acc, st) xs)) = st_rawScores st
   \<and> written (st_trace (snd (foldl (sample_step fetch pos item) (acc, st) xs)))
      = written (st_trace st)
   \<and> list_all sampling_event (st_trace (snd (foldl (sample_step fetch pos item) (acc, st) xs)))
      = list_all sampling_event (st_trace st)"
proof (induction xs arbitrary: acc st)
  case Nil
  show ?case by simp
next
  case (Cons x xs)
  obtain v l evs where t: "take_sample fetch pos item x = (v, l, evs)"
    by (cases "take_sample fetch pos item x") auto
  have evs: "written evs = []" "list_all sampling_event evs"
    using take_sample_events[of fetch pos item x] t by simp_all
  have step: "sample_step fetch pos item (acc, st) x
      = (acc @ [v], st\<lparr>st_logs := st_logs st @ [l], st_trace := st_trace st @ evs\<rparr>)"
    by (simp add: sample_step_def t)
  show ?case
    unfolding foldl_Cons step
    using Cons.IH[of "acc @ [v]" "st\<lparr>st_logs := st_logs st @ [l], st_trace := st_trace st @ evs\<rparr>"]
      evs t
    by simp
qed

lemma sample_item_effect:
  "st_rawScores (sample_item fetch st (pos, item))
      = (st_rawScores st)(item_id item \<mapsto> item_samples fetch pos item)"
  "written (st_trace (sample_item fetch st (pos, item))) = written (st_trace st) @ [item_id item]"
  "list_all sampling_event (st_trace (sample_item fetch st (pos, item)))
      = list_all sampling_event (st_trace st)"
proof -
  obtain sc st' where f: "foldl (sample_step fetch pos item) ([], st) [0..<5] = (sc, st')"
    by (cases "foldl (sample_step fetch pos item) ([], st) [0..<5]") auto
  have sc: "sc = item_samples fetch pos item"
    using sample_steps[of fetch pos item "[]" st "[0..<5]"] f by (simp add: item_samples_def)
  have raw: "st_rawScores st' = st_rawScores st"
    using sample_steps[of fetch pos item "[]" st "[0..<5]"] f by simp
  have wr: "written (st_trace st') = written (st_trace st)"
    using sample_steps[of fetch pos item "[]" st "[0..<5]"] f by simp
  have ev: "list_all sampling_event (st_trace st') = list_all sampling_event (st_trace st)"
    using sample_steps[of fetch pos item "[]" st "[0..<5]"] f by simp
  show "st_rawScores (sample_item fetch st (pos, item))
      = (st_rawScores st)(item_id item \<mapsto> item_samples fetch pos item)"
    by (simp add: sample_item_def f sc raw)
  show "written (st_trace (sample_item fetch st (pos, item))) = written (st_trace st) @ [item_id item]"
    by (simp add: sample_item_def f wr)
  show "list_all sampling_event (st_trace (sample_item fetch st (pos, item)))
      = list_all sampling_event (st_trace st)"
    by (simp add: sample_item_def f ev sampling_event_def)
qed

lemma record_items_Nil: "record_items fetch m [] = m"
  by (simp add: record_items_def)

lemma record_items_Cons:
  "record_items fetch m ((pos, item) # entries)
     = record_items fetch (m(item_id item \<mapsto> item_samples fetch pos item)) entries"
  by (simp add: record_items_def)

lemma chunk_effect:
  "st_rawScores (foldl (sample_item fetch) st entries) = record_items fetch (st_rawScores st) entries
   \<and> written (st_trace (foldl (sample_item fetch) st entries))
      = written (st_trace st) @ map (item_id \<circ> snd) entries
   \<and> list_all sampling_event (st_trace (foldl (sample_item fetch) st entries))
      = list_all sampling_event (st_trace st)"
proof (induction entries arbitrary: st)
  case Nil
  show ?case by (simp add: record_items_Nil)
next
  case (Cons e entries)
  obtain pos item where e: "e = (pos, item)" by (cases e) auto
  note IH = Cons.IH[of "sample_item fetch st (pos, item)", unfolded sample_item_effect]
  show ?case
    unfolding foldl_Cons e record_items_Cons
  proof (intro conjI)
    show "st_rawScores (foldl (sample_item fetch) (sample_item fetch st (pos, item)) entries)
        = record_items fetch ((st_rawScores st)(item_id item \<mapsto> item_samples fetch pos item)) entries"
      by (rule IH[THEN conjunct1])
    show "written (st_trace (foldl (sample_item fetch) (sample_item fetch st (pos, item)) entries))
        = written (st_trace st) @ map (item_id \<circ> snd) ((pos, item) # entries)"
      using IH[THEN conjunct2, THEN conjunct1] by simp
    show "list_all sampling_event
          (st_trace (foldl (sample_item fetch) (sample_item fetch st (pos, item)) entries))
        = list_all sampling_event (st_trace st)"
      by (rule IH[THEN conjunct2, THEN conjunct2])
  qed
qed

lemma record_items_append:
  "record_items fetch m (xs @ ys) = record_items fetch (record_items fetch m xs) ys"
  by (simp add: record_items_def)

lemma enumerate_chunks:
  "i < length xs \<Longrightarrow>
   enumerate i (take n (drop i xs)) @ enumerate (i + n) (drop (i + n) xs) = enumerate i (drop i xs)"
proof -
  assume "i < length xs"
  have "enumerate i (drop i xs) = enumerate i (take n (drop i xs) @ drop n (drop i xs))"
    by (simp only: append_take_drop_id)
  also have "\<dots> = enumerate i (take n (drop i xs))
      @ enumerate (i + length (take n (drop i xs))) (drop n (drop i xs))"
    by (rule enumerate_append_eq)
  also have "enumerate (i + length (take n (drop i xs))) (drop n (drop i xs))
      = enumerate (i + n) (drop (i + n) xs)"
  proof (cases "n \<le> length xs - i")
    case True
    then show ?thesis by (simp add: add.commute min_def)
  next
    case False
    then have "drop n (drop i xs) = []" "drop (i + n) xs = []" by simp_all
    then show ?thesis by simp
  qed
  finally show ?thesis by simp
qed

lemma sampling_loop_effect:
  "st_rawScores (sampling_loop fetch allItems i st)
      = record_items fetch (st_rawScores st) (enumerate i (drop i allItems))
   \<and> written (st_trace (sampling_loop fetch allItems i st))
      = written (st_trace st) @ map item_id (drop i allItems)
   \<and> list_all sampling_event (st_trace (sampling_loop fetch allItems i st))
      = list_all sampling_event (st_trace st)"
proof (induction fetch allItems i st rule: sampling_loop.induct)
  case (1 fetch allItems i st)
  show ?case
  proof (cases "i < length allItems")
    case False
    then show ?thesis by (simp add: record_items_def)
  next
    case True
    let ?chunk = "take CHUNK_SIZE (drop i allItems)"
    let ?st' = "foldl (sample_item fetch) st (enumerate i ?chunk)"
    let ?st'' = "?st'\<lparr>st_logs := st_logs ?st'
        @ [LogProgress (min (i + length ?chunk) (length allItems)) (length allItems)]\<rparr>"
    have unfold: "sampling_loop fetch allItems i st
        = sampling_loop fetch allItems (i + CHUNK_SIZE) ?st''"
      using True by (subst sampling_loop.simps) (simp add: Let_def)
    have IH: "st_rawScores (sampling_loop fetch allItems (i + CHUNK_SIZE) ?st'')
        = record_items fetch (st_rawScores ?st'') (enumerate (i + CHUNK_SIZE) (drop (i + CHUNK_SIZE) allItems))
      \<and> written (st_trace (sampling_loop fetch allItems (i + CHUNK_SIZE) ?st''))
        = written (st_trace ?st'') @ map item_id (drop (i + CHUNK_SIZE) allItems)
      \<and> list_all sampling_event (st_trace (sampling_loop fetch allItems (i + CHUNK_SIZE) ?st''))
        = list_all sampling_event (st_trace ?st'')"
      using "1.IH"[OF True refl refl refl] .
    have raw: "st_rawScores ?st'' = record_items fetch (st_rawScores st) (enumerate i ?chunk)"
      by (simp add: chunk_effect)
    have wr: "written (st_trace ?st'') = written (st_trace st) @ map item_id ?chunk"
      by (simp add: chunk_effect map_snd_enumerate flip: map_map)
    have ev: "list_all sampling_event (st_trace ?st'') = list_all sampling_event (st_trace st)"
      by (simp add: chunk_effect)
    have split_items: "map item_id ?chunk @ map item_id (drop (i + CHUNK_SIZE) allItems)
        = map item_id (drop i allItems)"
    proof -
      have "?chunk @ drop (i + CHUNK_SIZE) allItems = drop i allItems"
        by (metis add.commute append_take_drop_id drop_drop)
      then show ?thesis by (metis map_append)
    qed
    show ?thesis
      unfolding unfold
      using IH raw wr ev split_items enumerate_chunks[OF True, of CHUNK_SIZE]
      by (simp add: record_items_append[symmetric])
  qed
qed

lemma length_item_samples: "length (item_samples fetch pos item) = 5"
  by (simp add: item_samples_def)

lemma dom_record_items:
  "dom (record_items fetch m entries) = dom m \<union> (item_id \<circ> snd) ` set entries"
proof (induction entries arbitrary: m)
  case Nil
  show ?case by (simp add: record_items_Nil)
next
  case (Cons e entries)
  obtain pos item where e: "e = (pos, item)" by (cases e) auto
  show ?case unfolding e record_items_Cons Cons.IH by auto
qed

lemma record_items_lengths:
  "(\<And>k v. m k = Some v \<Longrightarrow> length v = 5) \<Longrightarrow> record_items fetch m entries k = Some v
    \<Longrightarrow> length v = 5"
proof (induction entries arbitrary: m)
  case Nil
  then show ?case by (simp add: record_items_Nil)
next
  case (Cons e entries)
  obtain pos item where e: "e = (pos, item)" by (cases e) auto
  have "\<And>k v. (m(item_id item \<mapsto> item_samples fetch pos item)) k = Some v \<Longrightarrow> length v = 5"
    using Cons.prems(1) by (auto simp: length_item_samples split: if_splits)
  then show ?case
    using Cons.IH[of "m(item_id item \<mapsto> item_samples fetch pos item)"] Cons.prems(2)
    unfolding e record_items_Cons by blast
qed

lemma record_items_other:
  "k \<notin> (item_id \<circ> snd) ` set entries \<Longrightarrow> record_items fetch m entries k = m k"
proof (induction entries arbitrary: m)
  case Nil
  show ?case by (simp add: record_items_Nil)
next
  case (Cons e entries)
  obtain pos item where e: "e = (pos, item)" by (cases e) auto
  show ?case using Cons unfolding e record_items_Cons by simp
qed

lemma record_items_entry:
  "distinct (map (item_id \<circ> snd) entries) \<Longrightarrow> (pos, item) \<in> set entries
    \<Longrightarrow> record_items fetch m entries (item_id item) = Some (item_samples fetch pos item)"
proof (induction entries arbitrary: m)
  case Nil
  then show ?case by simp
next
  case (Cons e entries)
  obtain p it where e: "e = (p, it)" by (cases e) auto
  show ?case
  proof (cases "(pos, item) = (p, it)")
    case True
    have "item_id it \<notin> (item_id \<circ> snd) ` set entries"
      using Cons.prems(1) by (simp add: e)
    then show ?thesis
      using True unfolding e record_items_Cons by (simp add: record_items_other)
  next
    case False
    then have mem: "(pos, item) \<in> set entries" using Cons.prems(2) by (auto simp: e)
    have d: "distinct (map (item_id \<circ> snd) entries)" using Cons.prems(1) by (simp add: e comp_def)
    show ?thesis
      unfolding e record_items_Cons by (rule Cons.IH[OF d mem])
  qed
qed

lemma sampling_effect:
  "st_rawScores (sampling fetch allItems logs0) = record_items fetch Map.empty (enumerate 0 allItems)"
  "written (st_trace (sampling fetch allItems logs0)) = map item_id allItems"
  "list_all sampling_event (st_trace (sampling fetch allItems logs0))"
  using sampling_loop_effect[of fetch allItems 0
      "\<lparr>st_logs = logs0, st_rawScores = Map.empty, st_trace = []\<rparr>"]
  by (simp_all add: sampling_def)

lemma count_list_distinct: "distinct xs \<Longrightarrow> x \<in> set xs \<Longrightarrow> count_list xs x = 1"
  by (induction xs) auto

lemma ids_of_enumerate: "map (item_id \<circ> snd) (enumerate n xs) = map item_id xs"
  by (simp add: map_snd_enumerate flip: map_map)

lemma sampling_entry:
  assumes "distinct (map item_id allItems)" and "p < length allItems"
  shows "st_rawScores (sampling fetch allItems logs0) (item_id (allItems ! p))
          = Some (item_samples fetch p (allItems ! p))"
proof -
  have "(p, allItems ! p) \<in> set (enumerate 0 allItems)"
    using assms(2) by (simp add: in_set_enumerate_eq)
  moreover have "distinct (map (item_id \<circ> snd) (enumerate 0 allItems))"
    using assms(1) by (simp add: ids_of_enumerate)
  ultimately show ?thesis
    using record_items_entry[of "enumerate 0 allItems" p "allItems ! p" fetch Map.empty]
    by (simp add: sampling_effect(1))
qed

text \<open>
  C2. Whatever the items and whatever each call of the query function does (return a
  string or throw), after sampling the raw-score map has exactly the ids of the input
  items as its keys, every entry is a sequence of exactly 5 samples, and every id is
  assigned as many times as there are input items with that id. With the ids of the input
  items distinct, every id is assigned exactly once, and the entry of the item at position
  \<open>p\<close> holds its five samples in the order of the rounds.
\<close>

theorem sampling_one_entry_per_item:
  "dom (st_rawScores (sampling fetch allItems logs0)) = item_id ` set allItems
   \<and> (\<forall>k v. st_rawScores (sampling fetch allItems logs0) k = Some v \<longrightarrow> length v = 5)
   \<and> (\<forall>k. count_list (written (st_trace (sampling fetch allItems logs0))) k
            = count_list (map item_id allItems) k)
   \<and> (distinct (map item_id allItems) \<longrightarrow>
        (\<forall>k \<in> item_id ` set allItems.
           count_list (written (st_trace (sampling fetch allItems logs0))) k = 1))
   \<and> (distinct (map item_id allItems) \<and> p < length allItems \<longrightarrow>
        st_rawScores (sampling fetch allItems logs0) (item_id (allItems ! p))
          = Some (map (\<lambda>sample. fst (take_sample fetch p (allItems ! p) sample)) [0..<5]))"
proof (intro conjI allI impI ballI)
  have ids: "(item_id \<circ> snd) ` set (enumerate 0 allItems) = item_id ` set allItems"
    unfolding set_map[symmetric] ids_of_enumerate ..
  show "dom (st_rawScores (sampling fetch allItems logs0)) = item_id ` set allItems"
    unfolding sampling_effect(1) dom_record_items ids by simp
next
  fix k v
  assume "st_rawScores (sampling fetch allItems logs0) k = Some v"
  then show "length v = 5"
    using record_items_lengths[of Map.empty fetch "enumerate 0 allItems" k v]
    by (simp add: sampling_effect(1))
next
  fix k
  show "count_list (written (st_trace (sampling fetch allItems logs0))) k
      = count_list (map item_id allItems) k"
    by (simp add: sampling_effect(2))
next
  fix k
  assume "distinct (map item_id allItems)" and "k \<in> item_id ` set allItems"
  then show "count_list (written (st_trace (sampling fetch allItems logs0))) k = 1"
    by (simp add: sampling_effect(2) count_list_distinct)
next
  assume h: "distinct (map item_id allItems) \<and> p < length allItems"
  then have "(p, allItems ! p) \<in> set (enumerate 0 allItems)"
    by (simp add: in_set_enumerate_eq)
  moreover have "distinct (map (item_id \<circ> snd) (enumerate 0 allItems))"
    using h by (simp add: ids_of_enumerate)
  ultimately show "st_rawScores (sampling fetch allItems logs0) (item_id (allItems ! p))
          = Some (map (\<lambda>sample. fst (take_sample fetch p (allItems ! p) sample)) [0..<5])"
    using record_items_entry[of "enumerate 0 allItems" p "allItems ! p" fetch Map.empty]
    by (simp add: sampling_effect(1) item_samples_def)
qed

theorem sampling_one_entry_per_item_witness:
  "dom (st_rawScores (sampling (\<lambda>pos sample prompt. if pos = 0 then Inr ''4'' else Inl (Error ''timeout''))
          [\<lparr>item_id = ''N1'', item_type = ''likert_5'', item_text = ''Worry about things'',
            dimension = None, leftText = [], rightText = [], words = None\<rparr>,
           \<lparr>item_id = ''disc_1'', item_type = ''choice_binary'', item_text = [],
            dimension = None, leftText = [], rightText = [],
            words = Some [''Bold'', ''Lively'', ''Calm'', ''Exact'']\<rparr>] [])) = {''N1'', ''disc_1''}
   \<and> st_rawScores (sampling (\<lambda>pos sample prompt. if pos = 0 then Inr ''4'' else Inl (Error ''timeout''))
          [\<lparr>item_id = ''N1'', item_type = ''likert_5'', item_text = ''Worry about things'',
            dimension = None, leftText = [], rightText = [], words = None\<rparr>,
           \<lparr>item_id = ''disc_1'', item_type = ''choice_binary'', item_text = [],
            dimension = None, leftText = [], rightText = [],
            words = Some [''Bold'', ''Lively'', ''Calm'', ''Exact'']\<rparr>] []) ''N1'' = Some [Num 4, Num 4, Num 4, Num 4, Num 4]
   \<and> count_list (written (st_trace (sampling
          (\<lambda>pos sample prompt. if pos = 0 then Inr ''4'' else Inl (Error ''timeout''))
          [\<lparr>item_id = ''N1'', item_type = ''likert_5'', item_text = ''Worry about things'',
            dimension = None, leftText = [], rightText = [], words = None\<rparr>,
           \<lparr>item_id = ''disc_1'', item_type = ''choice_binary'', item_text = [],
            dimension = None, leftText = [], rightText = [],
            words = Some [''Bold'', ''Lively'', ''Calm'', ''Exact'']\<rparr>] []))) ''N1'' = 1"
proof -
  let ?fetch = "\<lambda>pos sample prompt. if pos = (0::nat) then Inr ''4'' else Inl (Error ''timeout'')"
  let ?n1 = "\<lparr>item_id = ''N1'', item_type = ''likert_5'', item_text = ''Worry about things'',
            dimension = None, leftText = [], rightText = [], words = None\<rparr>"
  let ?d1 = "\<lparr>item_id = ''disc_1'', item_type = ''choice_binary'', item_text = [],
            dimension = None, leftText = [], rightText = [],
            words = Some [''Bold'', ''Lively'', ''Calm'', ''Exact'']\<rparr>"
  have d: "distinct (map item_id [?n1, ?d1])" by simp
  have m: "''N1'' \<in> item_id ` set [?n1, ?d1]" by simp
  have s: "fst (take_sample ?fetch 0 ?n1 sample) = Num 4" for sample
    by (simp add: take_sample_def build_prompt_def parse_response_def likert_match_def
        likert_match_at_def word_boundary_def is_word_char_def parseInt_def decimal_def
        is_digit_def digit_value_def round_to_double_exact sample_of_def)
  show ?thesis
    using sampling_one_entry_per_item[of ?fetch "[?n1, ?d1]" "[]" 0] d m s
    by (simp add: upt_conv_Cons)
qed

lemma thrown_query_sample:
  "build_prompt item = Inr prompt \<Longrightarrow> fetch pos sample prompt = Inl e
    \<Longrightarrow> take_sample fetch pos item sample = (Num 3, LogError (item_id item) e, [EvQuery pos sample])"
  by (simp add: take_sample_def)

lemma failing_query_entry:
  assumes "distinct (map item_id allItems)" and "p < length allItems"
    and "\<And>pos sample prompt. \<exists>e. fetch pos sample prompt = Inl e"
  shows "st_rawScores (sampling fetch allItems logs0) (item_id (allItems ! p))
          = Some [Num 3, Num 3, Num 3, Num 3, Num 3]"
proof -
  have "fst (take_sample fetch pos item sample) = Num 3" for pos item sample
  proof (cases "build_prompt item")
    case (Inl e)
    then show ?thesis by (simp add: take_sample_def)
  next
    case (Inr prompt)
    obtain e where "fetch pos sample prompt = Inl e" using assms(3) by blast
    then show ?thesis using Inr by (simp add: take_sample_def)
  qed
  then have "item_samples fetch p (allItems ! p) = [Num 3, Num 3, Num 3, Num 3, Num 3]"
    by (simp add: item_samples_def upt_conv_Cons)
  then show ?thesis
    using sampling_entry[OF assms(1,2), of fetch logs0] by simp
qed

text \<open>
  C1, at a failing input. The \<open>catch\<close> clause of a sample pushes 3 whatever the type of
  the item: with a query function that always throws, the five samples of a
  ForcedChoicePair item are 3, although the parser's own fallback for such an item, taken
  when a response holds no two numbers, is 0.
\<close>

theorem failing_query_forced_choice_sample:
  "st_rawScores (sampling (\<lambda>pos sample prompt. Inl (Error ''fetch failed''))
          [\<lparr>item_id = ''disc_1'', item_type = ''choice_binary'', item_text = [],
            dimension = None, leftText = [], rightText = [],
            words = Some [''Bold'', ''Lively'', ''Calm'', ''Exact'']\<rparr>] logs0) ''disc_1''
      = Some [Num 3, Num 3, Num 3, Num 3, Num 3]
   \<and> fst (parse_response
          \<lparr>item_id = ''disc_1'', item_type = ''choice_binary'', item_text = [],
            dimension = None, leftText = [], rightText = [],
            words = Some [''Bold'', ''Lively'', ''Calm'', ''Exact'']\<rparr> ''I cannot choose'') = Num 0"
proof -
  let ?fetch = "\<lambda>(pos::nat) (sample::nat) (prompt::prompt). Inl (Error ''fetch failed'') :: js_error + string"
  let ?d1 = "\<lparr>item_id = ''disc_1'', item_type = ''choice_binary'', item_text = [],
            dimension = None, leftText = [], rightText = [],
            words = Some [''Bold'', ''Lively'', ''Calm'', ''Exact'']\<rparr>"
  have "st_rawScores (sampling ?fetch [?d1] logs0) (item_id ([?d1] ! 0))
      = Some (item_samples ?fetch 0 ([?d1] ! 0))"
    by (rule sampling_entry) simp_all
  moreover have "item_samples ?fetch 0 ?d1 = [Num 3, Num 3, Num 3, Num 3, Num 3]"
    by (simp add: item_samples_def take_sample_def build_prompt_def upt_conv_Cons)
  moreover have "fst (parse_response ?d1 ''I cannot choose'') = Num 0"
    by (simp add: parse_response_def is_digit_def)
  ultimately show ?thesis by simp
qed

section \<open>Properties of the derived MBTI\<close>

lemma or_default_present: "x \<noteq> 0 \<Longrightarrow> or_default (Some x) d = x"
  by (simp add: or_default_def)

lemma or_default_absent: "v = None \<or> v = Some 0 \<Longrightarrow> or_default v d = d"
  by (auto simp: or_default_def)

lemma derived_type:
  "type (deriveMBTIFromBigFive r) =
     Some [if 72 \<le> or_default (traitScores r ''E'') 72 then CHR ''E'' else CHR ''I'',
           if 72 \<le> or_default (traitScores r ''O'') 72 then CHR ''N'' else CHR ''S'',
           if 72 \<le> or_default (traitScores r ''A'') 72 then CHR ''F'' else CHR ''T'',
           if 72 \<le> or_default (traitScores r ''C'') 72 then CHR ''J'' else CHR ''P'']"
  by (simp add: deriveMBTIFromBigFive_def MIDPOINT_def Let_def)

lemma derived_psi:
  "psi (deriveMBTIFromBigFive r) =
     Some [''IE'' \<mapsto> \<bar>or_default (traitScores r ''E'') 72 - 72\<bar> / 48,
           ''SN'' \<mapsto> \<bar>or_default (traitScores r ''O'') 72 - 72\<bar> / 48,
           ''TF'' \<mapsto> \<bar>or_default (traitScores r ''A'') 72 - 72\<bar> / 48,
           ''JP'' \<mapsto> \<bar>or_default (traitScores r ''C'') 72 - 72\<bar> / 48]"
  by (simp add: deriveMBTIFromBigFive_def MIDPOINT_def MAX_DELTA_def Let_def)

lemma derived_traits:
  "traitScores (deriveMBTIFromBigFive r) =
     [''E'' \<mapsto> or_default (traitScores r ''E'') 72, ''I'' \<mapsto> 144 - or_default (traitScores r ''E'') 72,
      ''N'' \<mapsto> or_default (traitScores r ''O'') 72, ''S'' \<mapsto> 144 - or_default (traitScores r ''O'') 72,
      ''F'' \<mapsto> or_default (traitScores r ''A'') 72, ''T'' \<mapsto> 144 - or_default (traitScores r ''A'') 72,
      ''J'' \<mapsto> or_default (traitScores r ''C'') 72, ''P'' \<mapsto> 144 - or_default (traitScores r ''C'') 72]"
  by (simp add: deriveMBTIFromBigFive_def MIDPOINT_def Let_def)

lemma psi_of_derived:
  "psi_of (deriveMBTIFromBigFive r) ''IE'' = Some (\<bar>or_default (traitScores r ''E'') 72 - 72\<bar> / 48)"
  "psi_of (deriveMBTIFromBigFive r) ''SN'' = Some (\<bar>or_default (traitScores r ''O'') 72 - 72\<bar> / 48)"
  "psi_of (deriveMBTIFromBigFive r) ''TF'' = Some (\<bar>or_default (traitScores r ''A'') 72 - 72\<bar> / 48)"
  "psi_of (deriveMBTIFromBigFive r) ''JP'' = Some (\<bar>or_default (traitScores r ''C'') 72 - 72\<bar> / 48)"
  by (simp_all add: psi_of_def derived_psi)

lemma trait_of_derived:
  "traitScores (deriveMBTIFromBigFive r) ''E'' = Some (or_default (traitScores r ''E'') 72)"
  "traitScores (deriveMBTIFromBigFive r) ''I'' = Some (144 - or_default (traitScores r ''E'') 72)"
  "traitScores (deriveMBTIFromBigFive r) ''N'' = Some (or_default (traitScores r ''O'') 72)"
  "traitScores (deriveMBTIFromBigFive r) ''S'' = Some (144 - or_default (traitScores r ''O'') 72)"
  "traitScores (deriveMBTIFromBigFive r) ''F'' = Some (or_default (traitScores r ''A'') 72)"
  "traitScores (deriveMBTIFromBigFive r) ''T'' = Some (144 - or_default (traitScores r ''A'') 72)"
  "traitScores (deriveMBTIFromBigFive r) ''J'' = Some (or_default (traitScores r ''C'') 72)"
  "traitScores (deriveMBTIFromBigFive r) ''P'' = Some (144 - or_default (traitScores r ''C'') 72)"
  by (simp_all add: derived_traits)

lemma derive_depends_on_EOAC:
  assumes "traitScores r ''E'' = traitScores r' ''E''" "traitScores r ''O'' = traitScores r' ''O''"
    "traitScores r ''A'' = traitScores r' ''A''" "traitScores r ''C'' = traitScores r' ''C''"
  shows "deriveMBTIFromBigFive r = deriveMBTIFromBigFive r'"
  using assms by (simp add: deriveMBTIFromBigFive_def Let_def)

text \<open>
  C6 (as amended). The derived type is always a string of four letters, the first E or I,
  the second N or S, the third F or T, the fourth J or P. For a domain score of E, O, A, C
  that is present and not zero, the letter is the high pole (E, N, F, J) exactly when the
  score is at least 72, so a score of exactly 72 gives the high pole; for a domain score
  that is missing or zero, the letter is the high pole. The result depends on the scores of
  E, O, A and C only: two inputs that agree on these four give the same result, whatever
  N is.
\<close>

theorem derived_type_letters:
  "(\<exists>l1 l2 l3 l4.
       type (deriveMBTIFromBigFive r) = Some [l1, l2, l3, l4]
       \<and> l1 \<in> {CHR ''E'', CHR ''I''} \<and> l2 \<in> {CHR ''N'', CHR ''S''}
       \<and> l3 \<in> {CHR ''F'', CHR ''T''} \<and> l4 \<in> {CHR ''J'', CHR ''P''}
       \<and> (traitScores r ''E'' = Some x_E \<and> x_E \<noteq> 0
            \<longrightarrow> l1 = (if 72 \<le> x_E then CHR ''E'' else CHR ''I''))
       \<and> (traitScores r ''O'' = Some x_O \<and> x_O \<noteq> 0
            \<longrightarrow> l2 = (if 72 \<le> x_O then CHR ''N'' else CHR ''S''))
       \<and> (traitScores r ''A'' = Some x_A \<and> x_A \<noteq> 0
            \<longrightarrow> l3 = (if 72 \<le> x_A then CHR ''F'' else CHR ''T''))
       \<and> (traitScores r ''C'' = Some x_C \<and> x_C \<noteq> 0
            \<longrightarrow> l4 = (if 72 \<le> x_C then CHR ''J'' else CHR ''P''))
       \<and> (traitScores r ''E'' = None \<or> traitScores r ''E'' = Some 0 \<longrightarrow> l1 = CHR ''E'')
       \<and> (traitScores r ''O'' = None \<or> traitScores r ''O'' = Some 0 \<longrightarrow> l2 = CHR ''N'')
       \<and> (traitScores r ''A'' = None \<or> traitScores r ''A'' = Some 0 \<longrightarrow> l3 = CHR ''F'')
       \<and> (traitScores r ''C'' = None \<or> traitScores r ''C'' = Some 0 \<longrightarrow> l4 = CHR ''J''))
   \<and> (traitScores r' ''E'' = traitScores r ''E'' \<and> traitScores r' ''O'' = traitScores r ''O''
        \<and> traitScores r' ''A'' = traitScores r ''A'' \<and> traitScores r' ''C'' = traitScores r ''C''
       \<longrightarrow> deriveMBTIFromBigFive r' = deriveMBTIFromBigFive r)"
proof (intro conjI impI)
  have mid: "or_default v 72 = 72" if "v = None \<or> v = Some 0" for v
    using that by (rule or_default_absent)
  show "\<exists>l1 l2 l3 l4.
       type (deriveMBTIFromBigFive r) = Some [l1, l2, l3, l4]
       \<and> l1 \<in> {CHR ''E'', CHR ''I''} \<and> l2 \<in> {CHR ''N'', CHR ''S''}
       \<and> l3 \<in> {CHR ''F'', CHR ''T''} \<and> l4 \<in> {CHR ''J'', CHR ''P''}
       \<and> (traitScores r ''E'' = Some x_E \<and> x_E \<noteq> 0
            \<longrightarrow> l1 = (if 72 \<le> x_E then CHR ''E'' else CHR ''I''))
       \<and> (traitScores r ''O'' = Some x_O \<and> x_O \<noteq> 0
            \<longrightarrow> l2 = (if 72 \<le> x_O then CHR ''N'' else CHR ''S''))
       \<and> (traitScores r ''A'' = Some x_A \<and> x_A \<noteq> 0
            \<longrightarrow> l3 = (if 72 \<le> x_A then CHR ''F'' else CHR ''T''))
       \<and> (traitScores r ''C'' = Some x_C \<and> x_C \<noteq> 0
            \<longrightarrow> l4 = (if 72 \<le> x_C then CHR ''J'' else CHR ''P''))
       \<and> (traitScores r ''E'' = None \<or> traitScores r ''E'' = Some 0 \<longrightarrow> l1 = CHR ''E'')
       \<and> (traitScores r ''O'' = None \<or> traitScores r ''O'' = Some 0 \<longrightarrow> l2 = CHR ''N'')
       \<and> (traitScores r ''A'' = None \<or> traitScores r ''A'' = Some 0 \<longrightarrow> l3 = CHR ''F'')
       \<and> (traitScores r ''C'' = None \<or> traitScores r ''C'' = Some 0 \<longrightarrow> l4 = CHR ''J'')"
    unfolding derived_type by (simp add: or_default_present mid)
next
  assume "traitScores r' ''E'' = traitScores r ''E'' \<and> traitScores r' ''O'' = traitScores r ''O''
        \<and> traitScores r' ''A'' = traitScores r ''A'' \<and> traitScores r' ''C'' = traitScores r ''C''"
  then show "deriveMBTIFromBigFive r' = deriveMBTIFromBigFive r"
    by (intro derive_depends_on_EOAC) simp_all
qed

theorem derived_type_letters_witness:
  "type (deriveMBTIFromBigFive
           (big_five_result [''N'' \<mapsto> 60, ''E'' \<mapsto> 72, ''O'' \<mapsto> 359 / 5, ''A'' \<mapsto> 100, ''C'' \<mapsto> 24]))
     = Some ''ESFP''
   \<and> deriveMBTIFromBigFive
         (big_five_result [''N'' \<mapsto> 110, ''E'' \<mapsto> 72, ''O'' \<mapsto> 359 / 5, ''A'' \<mapsto> 100, ''C'' \<mapsto> 24])
     = deriveMBTIFromBigFive
         (big_five_result [''N'' \<mapsto> 60, ''E'' \<mapsto> 72, ''O'' \<mapsto> 359 / 5, ''A'' \<mapsto> 100, ''C'' \<mapsto> 24])
   \<and> type (deriveMBTIFromBigFive (big_five_result [''N'' \<mapsto> 60, ''E'' \<mapsto> 0, ''A'' \<mapsto> 0]))
     = Some ''ENFJ''"
  using derived_type_letters[where
      r = "big_five_result [''N'' \<mapsto> 60, ''E'' \<mapsto> 72, ''O'' \<mapsto> 359 / 5, ''A'' \<mapsto> 100, ''C'' \<mapsto> 24]"
      and r' = "big_five_result [''N'' \<mapsto> 110, ''E'' \<mapsto> 72, ''O'' \<mapsto> 359 / 5, ''A'' \<mapsto> 100, ''C'' \<mapsto> 24]"
      and x_E = 72 and x_O = "359 / 5" and x_A = 100 and x_C = 24]
    derived_type_letters[where
      r = "big_five_result [''N'' \<mapsto> 60, ''E'' \<mapsto> 0, ''A'' \<mapsto> 0]"
      and r' = "big_five_result [''N'' \<mapsto> 60, ''E'' \<mapsto> 0, ''A'' \<mapsto> 0]"
      and x_E = 1 and x_O = 1 and x_A = 1 and x_C = 1]
  by (auto simp: big_five_result_def)

text \<open>
  The claim as stated fails on the code. For the domain scores E = 0, O = 100, A = 30,
  C = 90 the claim gives the letter I, since 0 is below 72; the transform replaces the
  score 0 by 72 and gives E.
\<close>

theorem derived_letter_of_zero_score:
  "type (deriveMBTIFromBigFive
           (big_five_result [''N'' \<mapsto> 60, ''E'' \<mapsto> 0, ''O'' \<mapsto> 100, ''A'' \<mapsto> 30, ''C'' \<mapsto> 90]))
     = Some ''ENTJ''
   \<and> claimed_letter 0 CHR ''E'' CHR ''I'' = CHR ''I''"
  by (simp add: derived_type big_five_result_def or_default_def claimed_letter_def)

text \<open>
  C7 (as amended), with numbers as exact rationals. For a domain score of E, O, A, C that
  is present and not zero, the PSI of its dimension is \<open>|score - 72| / 48\<close>, the high pole
  of its trait pair is the score and the opposing pole is 144 minus the score. For a domain
  score that is missing or zero, the PSI is 0 and both poles are 72. In every case the two
  poles of a pair sum to 144. When E, O, A and C are all 72, every PSI is 0.
\<close>

theorem derived_psi_and_trait_pairs:
  "(traitScores r ''E'' = Some x_E \<and> x_E \<noteq> 0 \<longrightarrow>
       psi_of (deriveMBTIFromBigFive r) ''IE'' = Some (\<bar>x_E - 72\<bar> / 48)
       \<and> traitScores (deriveMBTIFromBigFive r) ''E'' = Some x_E
       \<and> traitScores (deriveMBTIFromBigFive r) ''I'' = Some (144 - x_E))
   \<and> (traitScores r ''O'' = Some x_O \<and> x_O \<noteq> 0 \<longrightarrow>
       psi_of (deriveMBTIFromBigFive r) ''SN'' = Some (\<bar>x_O - 72\<bar> / 48)
       \<and> traitScores (deriveMBTIFromBigFive r) ''N'' = Some x_O
       \<and> traitScores (deriveMBTIFromBigFive r) ''S'' = Some (144 - x_O))
   \<and> (traitScores r ''A'' = Some x_A \<and> x_A \<noteq> 0 \<longrightarrow>
       psi_of (deriveMBTIFromBigFive r) ''TF'' = Some (\<bar>x_A - 72\<bar> / 48)
       \<and> traitScores (deriveMBTIFromBigFive r) ''F'' = Some x_A
       \<and> traitScores (deriveMBTIFromBigFive r) ''T'' = Some (144 - x_A))
   \<and> (traitScores r ''C'' = Some x_C \<and> x_C \<noteq> 0 \<longrightarrow>
       psi_of (deriveMBTIFromBigFive r) ''JP'' = Some (\<bar>x_C - 72\<bar> / 48)
       \<and> traitScores (deriveMBTIFromBigFive r) ''J'' = Some x_C
       \<and> traitScores (deriveMBTIFromBigFive r) ''P'' = Some (144 - x_C))
   \<and> (traitScores r ''E'' = None \<or> traitScores r ''E'' = Some 0 \<longrightarrow>
       psi_of (deriveMBTIFromBigFive r) ''IE'' = Some 0
       \<and> traitScores (deriveMBTIFromBigFive r) ''E'' = Some 72
       \<and> traitScores (deriveMBTIFromBigFive r) ''I'' = Some 72)
   \<and> (traitScores r ''O'' = None \<or> traitScores r ''O'' = Some 0 \<longrightarrow>
       psi_of (deriveMBTIFromBigFive r) ''SN'' = Some 0
       \<and> traitScores (deriveMBTIFromBigFive r) ''N'' = Some 72
       \<and> traitScores (deriveMBTIFromBigFive r) ''S'' = Some 72)
   \<and> (traitScores r ''A'' = None \<or> traitScores r ''A'' = Some 0 \<longrightarrow>
       psi_of (deriveMBTIFromBigFive r) ''TF'' = Some 0
       \<and> traitScores (deriveMBTIFromBigFive r) ''F'' = Some 72
       \<and> traitScores (deriveMBTIFromBigFive r) ''T'' = Some 72)
   \<and> (traitScores r ''C'' = None \<or> traitScores r ''C'' = Some 0 \<longrightarrow>
       psi_of (deriveMBTIFromBigFive r) ''JP'' = Some 0
       \<and> traitScores (deriveMBTIFromBigFive r) ''J'' = Some 72
       \<and> traitScores (deriveMBTIFromBigFive r) ''P'' = Some 72)
   \<and> (\<exists>e i. traitScores (deriveMBTIFromBigFive r) ''E'' = Some e
          \<and> traitScores (deriveMBTIFromBigFive r) ''I'' = Some i \<and> e + i = 144)
   \<and> (\<exists>n s. traitScores (deriveMBTIFromBigFive r) ''N'' = Some n
          \<and> traitScores (deriveMBTIFromBigFive r) ''S'' = Some s \<and> n + s = 144)
   \<and> (\<exists>f t. traitScores (deriveMBTIFromBigFive r) ''F'' = Some f
          \<and> traitScores (deriveMBTIFromBigFive r) ''T'' = Some t \<and> f + t = 144)
   \<and> (\<exists>j p. traitScores (deriveMBTIFromBigFive r) ''J'' = Some j
          \<and> traitScores (deriveMBTIFromBigFive r) ''P'' = Some p \<and> j + p = 144)
   \<and> (traitScores r ''E'' = Some 72 \<and> traitScores r ''O'' = Some 72
        \<and> traitScores r ''A'' = Some 72 \<and> traitScores r ''C'' = Some 72
       \<longrightarrow> psi_of (deriveMBTIFromBigFive r) ''IE'' = Some 0
           \<and> psi_of (deriveMBTIFromBigFive r) ''SN'' = Some 0
           \<and> psi_of (deriveMBTIFromBigFive r) ''TF'' = Some 0
           \<and> psi_of (deriveMBTIFromBigFive r) ''JP'' = Some 0)"
proof -
  have mid: "or_default v 72 = 72" if "v = None \<or> v = Some 0" for v
    using that by (rule or_default_absent)
  show ?thesis
    by (intro conjI impI)
      (simp_all add: psi_of_derived trait_of_derived or_default_present mid)
qed

theorem derived_psi_and_trait_pairs_witness:
  "psi_of (deriveMBTIFromBigFive
       (big_five_result [''N'' \<mapsto> 60, ''E'' \<mapsto> 72, ''O'' \<mapsto> 72, ''A'' \<mapsto> 72, ''C'' \<mapsto> 72])) ''IE'' = Some 0
   \<and> psi_of (deriveMBTIFromBigFive
       (big_five_result [''N'' \<mapsto> 60, ''E'' \<mapsto> 72, ''O'' \<mapsto> 72, ''A'' \<mapsto> 72, ''C'' \<mapsto> 72])) ''SN'' = Some 0
   \<and> psi_of (deriveMBTIFromBigFive
       (big_five_result [''N'' \<mapsto> 60, ''E'' \<mapsto> 72, ''O'' \<mapsto> 72, ''A'' \<mapsto> 72, ''C'' \<mapsto> 72])) ''TF'' = Some 0
   \<and> psi_of (deriveMBTIFromBigFive
       (big_five_result [''N'' \<mapsto> 60, ''E'' \<mapsto> 72, ''O'' \<mapsto> 72, ''A'' \<mapsto> 72, ''C'' \<mapsto> 72])) ''JP'' = Some 0
   \<and> traitScores (deriveMBTIFromBigFive
       (big_five_result [''N'' \<mapsto> 60, ''E'' \<mapsto> 72, ''O'' \<mapsto> 72, ''A'' \<mapsto> 72, ''C'' \<mapsto> 72])) ''I'' = Some 72
   \<and> psi_of (deriveMBTIFromBigFive
       (big_five_result [''N'' \<mapsto> 60, ''E'' \<mapsto> 108, ''O'' \<mapsto> 30, ''A'' \<mapsto> 0])) ''IE'' = Some (3 / 4)
   \<and> traitScores (deriveMBTIFromBigFive
       (big_five_result [''N'' \<mapsto> 60, ''E'' \<mapsto> 108, ''O'' \<mapsto> 30, ''A'' \<mapsto> 0])) ''I'' = Some 36
   \<and> psi_of (deriveMBTIFromBigFive
       (big_five_result [''N'' \<mapsto> 60, ''E'' \<mapsto> 108, ''O'' \<mapsto> 30, ''A'' \<mapsto> 0])) ''TF'' = Some 0
   \<and> traitScores (deriveMBTIFromBigFive
       (big_five_result [''N'' \<mapsto> 60, ''E'' \<mapsto> 108, ''O'' \<mapsto> 30, ''A'' \<mapsto> 0])) ''T'' = Some 72"
  using derived_psi_and_trait_pairs[where
      r = "big_five_result [''N'' \<mapsto> 60, ''E'' \<mapsto> 72, ''O'' \<mapsto> 72, ''A'' \<mapsto> 72, ''C'' \<mapsto> 72]"
      and x_E = 72 and x_O = 72 and x_A = 72 and x_C = 72]
    derived_psi_and_trait_pairs[where
      r = "big_five_result [''N'' \<mapsto> 60, ''E'' \<mapsto> 108, ''O'' \<mapsto> 30, ''A'' \<mapsto> 0]"
      and x_E = 108 and x_O = 30 and x_A = 1 and x_C = 1]
  by (auto simp: big_five_result_def)

text \<open>
  The claim as stated fails on the code. For the domain scores E = 0, O = 100, A = 30,
  C = 90 the claim gives the PSI \<open>|0 - 72| / 48 = 3/2\<close> for the dimension IE and the
  opposing pole \<open>144 - 0 = 144\<close> for I; the transform replaces the score 0 by 72 and
  gives the PSI 0 and the poles E = 72, I = 72.
\<close>

theorem derived_psi_of_zero_score:
  "psi_of (deriveMBTIFromBigFive
       (big_five_result [''N'' \<mapsto> 60, ''E'' \<mapsto> 0, ''O'' \<mapsto> 100, ''A'' \<mapsto> 30, ''C'' \<mapsto> 90])) ''IE''
     = Some 0
   \<and> claimed_psi 0 = 3 / 2
   \<and> traitScores (deriveMBTIFromBigFive
       (big_five_result [''N'' \<mapsto> 60, ''E'' \<mapsto> 0, ''O'' \<mapsto> 100, ''A'' \<mapsto> 30, ''C'' \<mapsto> 90])) ''E''
     = Some 72
   \<and> traitScores (deriveMBTIFromBigFive
       (big_five_result [''N'' \<mapsto> 60, ''E'' \<mapsto> 0, ''O'' \<mapsto> 100, ''A'' \<mapsto> 30, ''C'' \<mapsto> 90])) ''I''
     = Some 72
   \<and> claimed_opposite 0 = 144"
  by (simp add: psi_of_derived trait_of_derived big_five_result_def or_default_def
      claimed_psi_def claimed_opposite_def)

text \<open>
  C8. When the domain scores of E, O, A and C lie in [24, 120], the four PSI values lie
  in [0, 1].
\<close>

theorem derived_psi_in_unit_interval:
  assumes "traitScores r ''E'' = Some x_E" "24 \<le> x_E" "x_E \<le> 120"
    and "traitScores r ''O'' = Some x_O" "24 \<le> x_O" "x_O \<le> 120"
    and "traitScores r ''A'' = Some x_A" "24 \<le> x_A" "x_A \<le> 120"
    and "traitScores r ''C'' = Some x_C" "24 \<le> x_C" "x_C \<le> 120"
  shows "\<exists>p_IE p_SN p_TF p_JP.
     psi_of (deriveMBTIFromBigFive r) ''IE'' = Some p_IE \<and> 0 \<le> p_IE \<and> p_IE \<le> 1
     \<and> psi_of (deriveMBTIFromBigFive r) ''SN'' = Some p_SN \<and> 0 \<le> p_SN \<and> p_SN \<le> 1
     \<and> psi_of (deriveMBTIFromBigFive r) ''TF'' = Some p_TF \<and> 0 \<le> p_TF \<and> p_TF \<le> 1
     \<and> psi_of (deriveMBTIFromBigFive r) ''JP'' = Some p_JP \<and> 0 \<le> p_JP \<and> p_JP \<le> 1"
proof -
  have value_of: "\<bar>or_default (Some x) 72 - 72\<bar> / 48 = \<bar>x - 72\<bar> / 48" if "24 \<le> x" for x :: number
  proof -
    have "x \<noteq> 0" using that by auto
    then show ?thesis by (simp add: or_default_present)
  qed
  have bound: "0 \<le> \<bar>x - 72\<bar> / 48 \<and> \<bar>x - 72\<bar> / 48 \<le> 1" if "24 \<le> x" "x \<le> 120" for x :: number
  proof -
    have "\<bar>x - 72\<bar> \<le> 48" using that by (simp add: abs_le_iff)
    then show ?thesis by simp
  qed
  have IE: "psi_of (deriveMBTIFromBigFive r) ''IE'' = Some (\<bar>x_E - 72\<bar> / 48)"
    using assms(1,2) by (simp add: psi_of_derived value_of)
  have SN: "psi_of (deriveMBTIFromBigFive r) ''SN'' = Some (\<bar>x_O - 72\<bar> / 48)"
    using assms(4,5) by (simp add: psi_of_derived value_of)
  have TF: "psi_of (deriveMBTIFromBigFive r) ''TF'' = Some (\<bar>x_A - 72\<bar> / 48)"
    using assms(7,8) by (simp add: psi_of_derived value_of)
  have JP: "psi_of (deriveMBTIFromBigFive r) ''JP'' = Some (\<bar>x_C - 72\<bar> / 48)"
    using assms(10,11) by (simp add: psi_of_derived value_of)
  show ?thesis
    using IE SN TF JP bound[OF assms(2,3)] bound[OF assms(5,6)] bound[OF assms(8,9)]
      bound[OF assms(11,12)]
    by blast
qed

theorem derived_psi_in_unit_interval_witness:
  "\<exists>p_IE p_SN p_TF p_JP.
     psi_of (deriveMBTIFromBigFive
        (big_five_result [''N'' \<mapsto> 60, ''E'' \<mapsto> 24, ''O'' \<mapsto> 120, ''A'' \<mapsto> 72, ''C'' \<mapsto> 481 / 5])) ''IE''
       = Some p_IE \<and> 0 \<le> p_IE \<and> p_IE \<le> 1
     \<and> psi_of (deriveMBTIFromBigFive
        (big_five_result [''N'' \<mapsto> 60, ''E'' \<mapsto> 24, ''O'' \<mapsto> 120, ''A'' \<mapsto> 72, ''C'' \<mapsto> 481 / 5])) ''SN''
       = Some p_SN \<and> 0 \<le> p_SN \<and> p_SN \<le> 1
     \<and> psi_of (deriveMBTIFromBigFive
        (big_five_result [''N'' \<mapsto> 60, ''E'' \<mapsto> 24, ''O'' \<mapsto> 120, ''A'' \<mapsto> 72, ''C'' \<mapsto> 481 / 5])) ''TF''
       = Some p_TF \<and> 0 \<le> p_TF \<and> p_TF \<le> 1
     \<and> psi_of (deriveMBTIFromBigFive
        (big_five_result [''N'' \<mapsto> 60, ''E'' \<mapsto> 24, ''O'' \<mapsto> 120, ''A'' \<mapsto> 72, ''C'' \<mapsto> 481 / 5])) ''JP''
       = Some p_JP \<and> 0 \<le> p_JP \<and> p_JP \<le> 1"
proof -
  let ?r = "big_five_result [''N'' \<mapsto> 60, ''E'' \<mapsto> 24, ''O'' \<mapsto> 120, ''A'' \<mapsto> 72, ''C'' \<mapsto> 481 / 5]"
  have h: "traitScores ?r ''E'' = Some 24" "traitScores ?r ''O'' = Some 120"
    "traitScores ?r ''A'' = Some 72" "traitScores ?r ''C'' = Some (481 / 5)"
    by (simp_all add: big_five_result_def)
  show ?thesis
    by (rule derived_psi_in_unit_interval[OF h(1) _ _ h(2) _ _ h(3) _ _ h(4)]) simp_all
qed

text \<open>
  C10. A domain score among E, O, A, C that is missing or exactly 0 is replaced by 72:
  the PSI of its dimension is 0, its letter is the high pole, and both poles of its trait
  pair are 72.
\<close>

theorem missing_or_zero_score_is_midpoint:
  "(traitScores r ''E'' = None \<or> traitScores r ''E'' = Some 0
      \<longrightarrow> psi_of (deriveMBTIFromBigFive r) ''IE'' = Some 0
          \<and> (\<exists>rest. type (deriveMBTIFromBigFive r) = Some (CHR ''E'' # rest))
          \<and> traitScores (deriveMBTIFromBigFive r) ''E'' = Some 72
          \<and> traitScores (deriveMBTIFromBigFive r) ''I'' = Some 72)
   \<and> (traitScores r ''O'' = None \<or> traitScores r ''O'' = Some 0
      \<longrightarrow> psi_of (deriveMBTIFromBigFive r) ''SN'' = Some 0
          \<and> (\<exists>l1 rest. type (deriveMBTIFromBigFive r) = Some (l1 # CHR ''N'' # rest))
          \<and> traitScores (deriveMBTIFromBigFive r) ''N'' = Some 72
          \<and> traitScores (deriveMBTIFromBigFive r) ''S'' = Some 72)
   \<and> (traitScores r ''A'' = None \<or> traitScores r ''A'' = Some 0
      \<longrightarrow> psi_of (deriveMBTIFromBigFive r) ''TF'' = Some 0
          \<and> (\<exists>l1 l2 rest. type (deriveMBTIFromBigFive r) = Some (l1 # l2 # CHR ''F'' # rest))
          \<and> traitScores (deriveMBTIFromBigFive r) ''F'' = Some 72
          \<and> traitScores (deriveMBTIFromBigFive r) ''T'' = Some 72)
   \<and> (traitScores r ''C'' = None \<or> traitScores r ''C'' = Some 0
      \<longrightarrow> psi_of (deriveMBTIFromBigFive r) ''JP'' = Some 0
          \<and> (\<exists>l1 l2 l3 rest. type (deriveMBTIFromBigFive r) = Some (l1 # l2 # l3 # CHR ''J'' # rest))
          \<and> traitScores (deriveMBTIFromBigFive r) ''J'' = Some 72
          \<and> traitScores (deriveMBTIFromBigFive r) ''P'' = Some 72)"
proof -
  have mid: "or_default v 72 = 72" if "v = None \<or> v = Some 0" for v
    using that by (rule or_default_absent)
  show ?thesis
    by (intro conjI impI) (simp_all add: psi_of_derived trait_of_derived derived_type mid)
qed


theorem missing_or_zero_score_is_midpoint_witness:
  "psi_of (deriveMBTIFromBigFive (big_five_result [''E'' \<mapsto> 0, ''A'' \<mapsto> 0])) ''IE'' = Some 0
   \<and> psi_of (deriveMBTIFromBigFive (big_five_result [''E'' \<mapsto> 0, ''A'' \<mapsto> 0])) ''SN'' = Some 0
   \<and> type (deriveMBTIFromBigFive (big_five_result [''E'' \<mapsto> 0, ''A'' \<mapsto> 0])) = Some ''ENFJ''
   \<and> traitScores (deriveMBTIFromBigFive (big_five_result [''E'' \<mapsto> 0, ''A'' \<mapsto> 0])) ''T'' = Some 72
   \<and> traitScores (deriveMBTIFromBigFive (big_five_result [''E'' \<mapsto> 0, ''A'' \<mapsto> 0])) ''P'' = Some 72"
proof -
  let ?r = "big_five_result [''E'' \<mapsto> 0, ''A'' \<mapsto> 0]"
  have h: "traitScores ?r ''E'' = Some 0" "traitScores ?r ''O'' = None"
    "traitScores ?r ''A'' = Some 0" "traitScores ?r ''C'' = None"
    by (simp_all add: big_five_result_def)
  have len: "\<exists>a b c d. type (deriveMBTIFromBigFive ?r) = Some [a, b, c, d]"
    by (simp add: derived_type)
  show ?thesis
    using missing_or_zero_score_is_midpoint[of ?r] h len by auto
qed

section \<open>Properties of runAnalysis\<close>

lemma inserted_append [simp]: "inserted (a @ b) = inserted a @ inserted b"
  by (simp add: inserted_def)

lemma inserted_simps [simp]:
  "inserted [] = []" "inserted (EvInsert row # es) = row # inserted es"
  "inserted (EvScore name # es) = inserted es"
  by (simp_all add: inserted_def)

lemma inserted_sampling: "list_all sampling_event es \<Longrightarrow> inserted es = []"
  by (induction es) (auto simp: inserted_def sampling_event_def split: event.splits)

lemma inserted_scores: "inserted (map EvScore names) = []"
  by (induction names) simp_all

lemma inserted_sampling_trace: "inserted (st_trace (sampling fetch allItems logs0)) = []"
  by (rule inserted_sampling[OF sampling_effect(3)])

lemma score_inventory_cases:
  "score_inventory wanted name score_fn store raw (tr, Inr rs) = (tr', Inr rs')
    \<Longrightarrow> (if wanted then (\<exists>res. score_fn raw = Inr res \<and> rs' = store res rs \<and> tr' = tr @ [EvScore name])
         else rs' = rs \<and> tr' = tr)"
  by (auto simp: score_inventory_def split: sum.splits if_splits)

lemma score_inventory_failed:
  "score_inventory wanted name score_fn store raw (tr, Inl e) = (tr, Inl e)"
  by (simp add: score_inventory_def)

lemma score_inventories_done:
  assumes "score_inventories env inventories raw tr = (tr', Inr rs)"
  shows "tr' = tr @ map EvScore (requested inventories)
    \<and> scored_as (calculateBigFiveScores env) raw (''bigfive'' \<in> set inventories) (rs ''bigfive'')
    \<and> scored_as (calculateDISCScores env) raw (''disc'' \<in> set inventories) (rs ''disc'')
    \<and> scored_as (calculateMBTIScores env) raw (''mbti'' \<in> set inventories) (rs ''mbti'')
    \<and> rs ''mbti_derived'' = map_option deriveMBTIFromBigFive (rs ''bigfive'')
    \<and> dom rs \<subseteq> {''bigfive'', ''mbti_derived'', ''disc'', ''mbti''}"
  using assms
  by (auto simp: score_inventories_def score_inventory_def requested_def scored_as_def
      split: sum.splits if_splits)

lemma score_inventories_failed:
  assumes "score_inventories env inventories raw tr = (tr', Inl e)"
  shows "inserted tr' = inserted tr"
  using assms
  by (auto simp: score_inventories_def score_inventory_def split: sum.splits if_splits)


lemma assignments_of_sampling:
  "count_list (written (st_trace (sampling fetch allItems logs0))) k
     = count_list (map item_id allItems) k"
  by (simp add: sampling_effect(2))

lemma example_sample:
  "take_sample (\<lambda>pos sample prompt. Inr ''4'') pos
      \<lparr>item_id = ''N1'', item_type = ''likert_5'', item_text = ''Worry about things'',
       dimension = None, leftText = [], rightText = [], words = None\<rparr> sample
     = (Num 4, LogScore ''N1'' (Some 4), [EvQuery pos sample])"
  by (simp add: take_sample_def build_prompt_def parse_response_def likert_match_def
      likert_match_at_def word_boundary_def is_word_char_def parseInt_def decimal_def
      is_digit_def digit_value_def round_to_double_exact sample_of_def)

lemma example_item_logs:
  "st_logs (sample_item (\<lambda>pos sample prompt. Inr ''4'') st
      (0, \<lparr>item_id = ''N1'', item_type = ''likert_5'', item_text = ''Worry about things'',
           dimension = None, leftText = [], rightText = [], words = None\<rparr>))
     = st_logs st @ [LogScore ''N1'' (Some 4), LogScore ''N1'' (Some 4), LogScore ''N1'' (Some 4),
          LogScore ''N1'' (Some 4), LogScore ''N1'' (Some 4)]"
  by (simp add: sample_item_def sample_step_def example_sample upt_conv_Cons)

lemma example_sampling_logs:
  "st_logs (sampling (fetchOpenRouterResponse example_env) (collect_items example_env [''bigfive''])
      logs0)
     = logs0 @ [LogScore ''N1'' (Some 4), LogScore ''N1'' (Some 4), LogScore ''N1'' (Some 4),
          LogScore ''N1'' (Some 4), LogScore ''N1'' (Some 4), LogProgress 1 1]"
proof -
  let ?n1 = "\<lparr>item_id = ''N1'', item_type = ''likert_5'', item_text = ''Worry about things'',
           dimension = None, leftText = [], rightText = [], words = None\<rparr>"
  let ?fetch = "\<lambda>(pos::nat) (sample::nat) (prompt::prompt). Inr ''4'' :: js_error + string"
  have items: "collect_items example_env [''bigfive''] = [?n1]"
    by (simp add: collect_items_def example_env_def)
  have fetch: "fetchOpenRouterResponse example_env = ?fetch"
    by (simp add: example_env_def)
  have stop: "sampling_loop ?fetch [?n1] 5 st = st" for st
    by (subst sampling_loop.simps) simp
  have "sampling_loop ?fetch [?n1] 0 st
      = (sample_item ?fetch st (0, ?n1))\<lparr>st_logs := st_logs (sample_item ?fetch st (0, ?n1))
           @ [LogProgress 1 1]\<rparr>" for st
    by (subst sampling_loop.simps) (simp add: CHUNK_SIZE_def Let_def stop)
  then show ?thesis
    unfolding items fetch sampling_def by (simp add: example_item_logs)
qed

text \<open>
  C9 (as amended). The promise of a run is always fulfilled, with no value, and the run
  hands at most one row to the persistence collaborator. When it hands one over, the
  trace of the run is the trace of sampling (which holds no insert and as many assignments
  to each item id as there are items with that id), then one scoring call per requested
  inventory, then the insert as the last event. The row is built from the assembled
  profile: for each of the three inventories its result is what the scoring function
  returns on the raw scores of sampling when the inventory is requested, and absent
  otherwise; the derived MBTI is the transform of the Big Five result; there is no other
  result; the model name, the persona (\<open>Base Model\<close> for an empty one), the system
  prompt and the time stamp are those of the run, and the logs are those of sampling
  followed by the two lines of scoring and saving. When the store answers with an error,
  the error is logged and the run logs its completion; when the insert throws, the error
  is logged as fatal.
\<close>

theorem persistence_once_after_scoring:
  assumes "r = runAnalysis env model inventories persona_arg systemPrompt_arg"
    and "S = sampling (fetchOpenRouterResponse env) (collect_items env inventories)
               [LogStart model persona_arg,
                LogTotal (length (collect_items env inventories))
                  (length (collect_items env inventories) * 5)]"
  shows "outcome r = Fulfilled None
    \<and> length (inserted (final_trace r)) \<le> 1
    \<and> (inserted (final_trace r) = [row] \<longrightarrow>
          final_trace r = st_trace S @ map EvScore (requested inventories) @ [EvInsert row]
          \<and> inserted (st_trace S) = []
          \<and> (\<forall>k. count_list (written (st_trace S)) k
                  = count_list (map item_id (collect_items env inventories)) k)
          \<and> scored_as (calculateBigFiveScores env) (st_rawScores S)
                (''bigfive'' \<in> set inventories) (row_results row ''bigfive'')
          \<and> scored_as (calculateDISCScores env) (st_rawScores S)
                (''disc'' \<in> set inventories) (row_results row ''disc'')
          \<and> scored_as (calculateMBTIScores env) (st_rawScores S)
                (''mbti'' \<in> set inventories) (row_results row ''mbti'')
          \<and> row_results row ''mbti_derived''
                = map_option deriveMBTIFromBigFive (row_results row ''bigfive'')
          \<and> dom (row_results row) \<subseteq> {''bigfive'', ''mbti_derived'', ''disc'', ''mbti''}
          \<and> model_name row = model
          \<and> row_persona row = (if persona_arg = [] then ''Base Model'' else persona_arg)
          \<and> config_systemPrompt row = systemPrompt_arg
          \<and> row_logs row = st_logs S @ [LogCalculating, LogSaving]
          \<and> created_at row = Date_now env)
    \<and> (inserted (final_trace r) = [row] \<and> supabase env = Some save \<and> save row = Reply None \<longrightarrow>
          final_logs r = st_logs S @ [LogCalculating, LogSaving, LogSaved, LogCompleted])
    \<and> (inserted (final_trace r) = [row] \<and> supabase env = Some save
          \<and> save row = Reply (Some message) \<longrightarrow>
          final_logs r = st_logs S @ [LogCalculating, LogSaving, LogDbError message, LogCompleted])
    \<and> (inserted (final_trace r) = [row] \<and> supabase env = Some save \<and> save row = Rejected e \<longrightarrow>
          final_logs r = st_logs S
            @ [LogCalculating, LogSaving, LogFatal (error_message e ''Unknown error'')])"
proof -
  have out: "outcome r = Fulfilled None"
    unfolding assms(1) runAnalysis_def by (simp split: prod.splits option.splits)
  have s0: "inserted (st_trace S) = []"
    unfolding assms(2) by (rule inserted_sampling_trace)
  have w: "\<forall>k. count_list (written (st_trace S)) k
      = count_list (map item_id (collect_items env inventories)) k"
    unfolding assms(2) by (simp add: assignments_of_sampling)
  obtain tr sc where sc: "score_inventories env inventories (st_rawScores S) (st_trace S) = (tr, sc)"
    by force
  show ?thesis
  proof (cases sc)
    case (Inl err)
    have t: "analysis_try env model inventories persona_arg systemPrompt_arg
        = (st_logs S @ [LogCalculating], tr, Some err)"
      using sc Inl unfolding analysis_try_def Let_def assms(2)[symmetric] by simp
    have tr: "final_trace r = tr"
      unfolding assms(1) runAnalysis_def t by simp
    have "inserted tr = []"
      using score_inventories_failed[of env inventories "st_rawScores S" "st_trace S" tr err]
        sc Inl s0 by simp
    then show ?thesis using out by (simp add: tr)
  next
    case (Inr rs)
    define profile where "profile = \<lparr>modelName = model, persona = persona_arg,
        systemPrompt = systemPrompt_arg, timestamp = Date_now env, results = rs\<rparr>"
    have t: "analysis_try env model inventories persona_arg systemPrompt_arg
        = save_profile env profile (st_logs S @ [LogCalculating]) tr"
      using sc Inr unfolding analysis_try_def Let_def assms(2)[symmetric] profile_def by simp
    have d: "tr = st_trace S @ map EvScore (requested inventories)"
      and b: "scored_as (calculateBigFiveScores env) (st_rawScores S)
                (''bigfive'' \<in> set inventories) (rs ''bigfive'')"
      and di: "scored_as (calculateDISCScores env) (st_rawScores S)
                (''disc'' \<in> set inventories) (rs ''disc'')"
      and m: "scored_as (calculateMBTIScores env) (st_rawScores S)
                (''mbti'' \<in> set inventories) (rs ''mbti'')"
      and de: "rs ''mbti_derived'' = map_option deriveMBTIFromBigFive (rs ''bigfive'')"
      and dm: "dom rs \<subseteq> {''bigfive'', ''mbti_derived'', ''disc'', ''mbti''}"
      using score_inventories_done[of env inventories "st_rawScores S" "st_trace S" tr rs] sc Inr
      by simp_all
    have i0: "inserted tr = []"
      using d s0 by (simp add: inserted_scores)
    show ?thesis
    proof (cases "supabase env")
      case None
      have "final_trace r = tr"
        unfolding assms(1) runAnalysis_def t using None by (simp add: save_profile_def)
      then show ?thesis using i0 out by simp
    next
      case (Some save')
      define stored where "stored = \<lparr>model_name = model,
          row_persona = (if persona_arg = [] then ''Base Model'' else persona_arg),
          config_systemPrompt = systemPrompt_arg,
          row_results = rs,
          row_logs = st_logs S @ [LogCalculating, LogSaving],
          created_at = Date_now env\<rparr>"
      have sp: "save_profile env profile (st_logs S @ [LogCalculating]) tr
          = (case save' stored of
               Rejected e \<Rightarrow> (st_logs S @ [LogCalculating, LogSaving], tr @ [EvInsert stored], Some e)
             | Reply (Some message) \<Rightarrow>
                 (st_logs S @ [LogCalculating, LogSaving, LogDbError message, LogCompleted],
                  tr @ [EvInsert stored], None)
             | Reply None \<Rightarrow>
                 (st_logs S @ [LogCalculating, LogSaving, LogSaved, LogCompleted],
                  tr @ [EvInsert stored], None))"
        using Some
        by (simp add: save_profile_def Let_def stored_def profile_def
            split: insert_reply.splits option.splits)
      have tr': "final_trace r = tr @ [EvInsert stored]"
        unfolding assms(1) runAnalysis_def t sp
        by (simp split: insert_reply.splits option.splits)
      have ins: "inserted (final_trace r) = [stored]"
        using tr' i0 by simp
      have fields: "row_results stored = rs" "model_name stored = model"
        "row_persona stored = (if persona_arg = [] then ''Base Model'' else persona_arg)"
        "config_systemPrompt stored = systemPrompt_arg"
        "row_logs stored = st_logs S @ [LogCalculating, LogSaving]"
        "created_at stored = Date_now env"
        by (simp_all add: stored_def)
      have logs_none: "final_logs r = st_logs S @ [LogCalculating, LogSaving, LogSaved, LogCompleted]"
        if "save' stored = Reply None"
        unfolding assms(1) runAnalysis_def t sp using that by simp
      have logs_err: "final_logs r
          = st_logs S @ [LogCalculating, LogSaving, LogDbError message, LogCompleted]"
        if "save' stored = Reply (Some message)"
        unfolding assms(1) runAnalysis_def t sp using that by simp
      have logs_thrown: "final_logs r = st_logs S
            @ [LogCalculating, LogSaving, LogFatal (error_message e ''Unknown error'')]"
        if "save' stored = Rejected e"
        unfolding assms(1) runAnalysis_def t sp using that by simp
      show ?thesis
      proof (intro conjI impI)
        show "outcome r = Fulfilled None" by (rule out)
        show "length (inserted (final_trace r)) \<le> 1" by (simp add: ins)
      next
        assume "inserted (final_trace r) = [row]"
        then have row: "row = stored" using ins by simp
        show "final_trace r = st_trace S @ map EvScore (requested inventories) @ [EvInsert row]"
          by (simp add: tr' d row)
        show "inserted (st_trace S) = []" by (rule s0)
        show "\<forall>k. count_list (written (st_trace S)) k
                  = count_list (map item_id (collect_items env inventories)) k" by (rule w)
        show "scored_as (calculateBigFiveScores env) (st_rawScores S)
                (''bigfive'' \<in> set inventories) (row_results row ''bigfive'')"
          unfolding row fields by (rule b)
        show "scored_as (calculateDISCScores env) (st_rawScores S)
                (''disc'' \<in> set inventories) (row_results row ''disc'')"
          unfolding row fields by (rule di)
        show "scored_as (calculateMBTIScores env) (st_rawScores S)
                (''mbti'' \<in> set inventories) (row_results row ''mbti'')"
          unfolding row fields by (rule m)
        show "row_results row ''mbti_derived''
                = map_option deriveMBTIFromBigFive (row_results row ''bigfive'')"
          unfolding row fields by (rule de)
        show "dom (row_results row) \<subseteq> {''bigfive'', ''mbti_derived'', ''disc'', ''mbti''}"
          unfolding row fields by (rule dm)
        show "model_name row = model" unfolding row by (rule fields)
        show "row_persona row = (if persona_arg = [] then ''Base Model'' else persona_arg)"
          unfolding row by (rule fields)
        show "config_systemPrompt row = systemPrompt_arg" unfolding row by (rule fields)
        show "row_logs row = st_logs S @ [LogCalculating, LogSaving]" unfolding row by (rule fields)
        show "created_at row = Date_now env" unfolding row by (rule fields)
      next
        assume "inserted (final_trace r) = [row] \<and> supabase env = Some save \<and> save row = Reply None"
        then have "save' stored = Reply None" using ins Some by simp
        then show "final_logs r = st_logs S @ [LogCalculating, LogSaving, LogSaved, LogCompleted]"
          by (rule logs_none)
      next
        assume "inserted (final_trace r) = [row] \<and> supabase env = Some save
          \<and> save row = Reply (Some message)"
        then have "save' stored = Reply (Some message)" using ins Some by simp
        then show "final_logs r
            = st_logs S @ [LogCalculating, LogSaving, LogDbError message, LogCompleted]"
          by (rule logs_err)
      next
        assume "inserted (final_trace r) = [row] \<and> supabase env = Some save \<and> save row = Rejected e"
        then have "save' stored = Rejected e" using ins Some by simp
        then show "final_logs r = st_logs S
            @ [LogCalculating, LogSaving, LogFatal (error_message e ''Unknown error'')]"
          by (rule logs_thrown)
      qed
    qed
  qed
qed


theorem persistence_once_after_scoring_witness:
  "\<exists>row. inserted (final_trace (runAnalysis example_env ''some/model'' [''bigfive''] ''Base Model'' []))
          = [row]
     \<and> row_results row ''bigfive''
         = Some (big_five_result [''N'' \<mapsto> 96, ''E'' \<mapsto> 72, ''O'' \<mapsto> 72, ''A'' \<mapsto> 72, ''C'' \<mapsto> 72])
     \<and> row_results row ''mbti_derived''
         = Some (deriveMBTIFromBigFive
             (big_five_result [''N'' \<mapsto> 96, ''E'' \<mapsto> 72, ''O'' \<mapsto> 72, ''A'' \<mapsto> 72, ''C'' \<mapsto> 72]))
     \<and> row_results row ''disc'' = None \<and> row_results row ''mbti'' = None
     \<and> model_name row = ''some/model''
     \<and> final_logs (runAnalysis example_env ''some/model'' [''bigfive''] ''Base Model'' [])
         = st_logs (sampling (fetchOpenRouterResponse example_env)
                      (collect_items example_env [''bigfive''])
                      [LogStart ''some/model'' ''Base Model'', LogTotal 1 5])
           @ [LogCalculating, LogSaving, LogDbError ''connection refused'', LogCompleted]
     \<and> outcome (runAnalysis example_env ''some/model'' [''bigfive''] ''Base Model'' []) = Fulfilled None"
proof -
  let ?r = "runAnalysis example_env ''some/model'' [''bigfive''] ''Base Model'' []"
  let ?S = "sampling (fetchOpenRouterResponse example_env) (collect_items example_env [''bigfive''])
      [LogStart ''some/model'' ''Base Model'',
       LogTotal (length (collect_items example_env [''bigfive'']))
         (length (collect_items example_env [''bigfive'']) * 5)]"
  let ?b5 = "big_five_result [''N'' \<mapsto> 96, ''E'' \<mapsto> 72, ''O'' \<mapsto> 72, ''A'' \<mapsto> 72, ''C'' \<mapsto> 72]"
  have n: "length (collect_items example_env [''bigfive'']) = 1"
    by (simp add: collect_items_def example_env_def)
  have "\<exists>row. inserted (final_trace ?r) = [row]"
    by (simp add: runAnalysis_def analysis_try_def save_profile_def score_inventories_def
        score_inventory_def example_env_def Let_def inserted_sampling_trace)
  then obtain row where row: "inserted (final_trace ?r) = [row]" ..
  have db: "supabase example_env = Some (\<lambda>row. Reply (Some ''connection refused''))"
    by (simp add: example_env_def)
  have fn: "calculateBigFiveScores example_env (st_rawScores ?S) = Inr ?b5"
    by (simp add: example_env_def)
  note T = persistence_once_after_scoring[where r = ?r and S = ?S and env = example_env
        and model = "''some/model''" and inventories = "[''bigfive'']"
        and persona_arg = "''Base Model''" and systemPrompt_arg = "[]" and row = row
        and save = "\<lambda>row. Reply (Some ''connection refused'')"
        and message = "''connection refused''", OF refl refl]
  have out: "outcome ?r = Fulfilled None"
    using T by (rule conjunct1)
  note R = T[THEN conjunct2, THEN conjunct2, THEN conjunct1, THEN mp, OF row]
  have b5: "scored_as (calculateBigFiveScores example_env) (st_rawScores ?S)
                (''bigfive'' \<in> set [''bigfive'']) (row_results row ''bigfive'')"
    using R by blast
  have di: "scored_as (calculateDISCScores example_env) (st_rawScores ?S)
                (''disc'' \<in> set [''bigfive'']) (row_results row ''disc'')"
    using R by blast
  have mb: "scored_as (calculateMBTIScores example_env) (st_rawScores ?S)
                (''mbti'' \<in> set [''bigfive'']) (row_results row ''mbti'')"
    using R by blast
  have de: "row_results row ''mbti_derived''
                = map_option deriveMBTIFromBigFive (row_results row ''bigfive'')"
    using R by blast
  have mo: "model_name row = ''some/model''"
    using R by blast
  have "final_logs ?r = st_logs ?S @ [LogCalculating, LogSaving, LogDbError ''connection refused'', LogCompleted]"
    using T row db by blast
  then have logs: "final_logs ?r = st_logs (sampling (fetchOpenRouterResponse example_env)
                      (collect_items example_env [''bigfive''])
                      [LogStart ''some/model'' ''Base Model'', LogTotal 1 5])
           @ [LogCalculating, LogSaving, LogDbError ''connection refused'', LogCompleted]"
    by (simp add: n)
  have r1: "row_results row ''bigfive'' = Some ?b5"
    using b5 unfolding scored_as_def fn by simp
  have r2: "row_results row ''disc'' = None"
    using di unfolding scored_as_def by simp
  have r3: "row_results row ''mbti'' = None"
    using mb unfolding scored_as_def by simp
  have r4: "row_results row ''mbti_derived'' = Some (deriveMBTIFromBigFive ?b5)"
    unfolding de r1 by simp
  show ?thesis
    using row r1 r2 r3 r4 mo logs out by (intro exI[of _ row] conjI)
qed

text \<open>
  The claim as stated fails on the code in its last part. \<open>runAnalysis\<close> has no
  \<open>return\<close> statement and \<open>profile\<close> is local to its \<open>try\<close> block, so a run hands the
  profile to nobody but the store. In the example the store answers the insert with an
  error: the promise of the run is fulfilled with no value, and the logs hold the database
  error and the completion line, so that the profile is not available after the run.
\<close>

theorem failed_save_yields_no_profile:
  "outcome (runAnalysis example_env ''some/model'' [''bigfive''] ''Base Model'' []) = Fulfilled None
   \<and> final_logs (runAnalysis example_env ''some/model'' [''bigfive''] ''Base Model'' [])
       = [LogStart ''some/model'' ''Base Model'', LogTotal 1 5,
          LogScore ''N1'' (Some 4), LogScore ''N1'' (Some 4), LogScore ''N1'' (Some 4),
          LogScore ''N1'' (Some 4), LogScore ''N1'' (Some 4), LogProgress 1 1,
          LogCalculating, LogSaving, LogDbError ''connection refused'', LogCompleted]"
proof -
  have n: "length (collect_items example_env [''bigfive'']) = 1"
    by (simp add: collect_items_def example_env_def)
  have db: "supabase example_env = Some (\<lambda>row. Reply (Some ''connection refused''))"
    by (simp add: example_env_def)
  have fn: "calculateBigFiveScores example_env raw
      = Inr (big_five_result [''N'' \<mapsto> 96, ''E'' \<mapsto> 72, ''O'' \<mapsto> 72, ''A'' \<mapsto> 72, ''C'' \<mapsto> 72])"
    for raw
    by (simp add: example_env_def)
  have "outcome (runAnalysis example_env ''some/model'' [''bigfive''] ''Base Model'' [])
      = Fulfilled None"
    by (simp add: runAnalysis_def split: prod.splits option.splits)
  moreover have "final_logs (runAnalysis example_env ''some/model'' [''bigfive''] ''Base Model'' [])
       = [LogStart ''some/model'' ''Base Model'', LogTotal 1 5,
          LogScore ''N1'' (Some 4), LogScore ''N1'' (Some 4), LogScore ''N1'' (Some 4),
          LogScore ''N1'' (Some 4), LogScore ''N1'' (Some 4), LogProgress 1 1,
          LogCalculating, LogSaving, LogDbError ''connection refused'', LogCompleted]"
    by (simp add: runAnalysis_def analysis_try_def save_profile_def score_inventories_def
        score_inventory_def Let_def example_sampling_logs n db fn)
  ultimately show ?thesis by simp
qed

section \<open>Properties of the scoring endpoints\<close>

lemma validate_entries_rejects:
  "validate_entries entries \<noteq> None
    \<longleftrightarrow> list_ex (\<lambda>entry. case entry of JArr xs \<Rightarrow> list_ex invalid_score xs | _ \<Rightarrow> True) entries"
  by (induction entries) (auto split: json.splits)

lemma bigfive_POST_validates:
  assumes "validate_entries (entry_values (property body ''rawScores'')) \<noteq> None"
  shows "snd (bigfive_POST fs (Some body)) = []"
  using assms
  by (auto simp: bigfive_POST_def Let_def split: option.splits sum.splits)

lemma calculate_calls:
  "calculate inventories name f raw (computed, errors, calls) = (computed', errors', calls')
    \<Longrightarrow> computed' = [] \<Longrightarrow> computed = []"
  by (auto simp: calculate_def split: if_splits sum.splits)

lemma psychometrics_POST_validation_precedes_scoring:
  assumes "fst (psychometrics_POST fs request_json) = ErrorResponse 400 reason"
  shows "snd (psychometrics_POST fs request_json) = []"
proof (cases request_json)
  case None
  then show ?thesis by (simp add: psychometrics_POST_def)
next
  case (Some body)
  obtain computed errors calls where c:
    "calculate (array_items (case property body ''inventories'' of
                      None \<Rightarrow> JArr (map JStr [''bigfive'', ''mbti'', ''disc''])
                    | Some v \<Rightarrow> v)) ''disc'' (scoreDISC fs) (the (property body ''rawScores''))
       (calculate (array_items (case property body ''inventories'' of
                      None \<Rightarrow> JArr (map JStr [''bigfive'', ''mbti'', ''disc''])
                    | Some v \<Rightarrow> v)) ''mbti'' (scoreMBTI fs) (the (property body ''rawScores''))
          (calculate (array_items (case property body ''inventories'' of
                      None \<Rightarrow> JArr (map JStr [''bigfive'', ''mbti'', ''disc''])
                    | Some v \<Rightarrow> v)) ''bigfive'' (scoreBigFive fs)
             (the (property body ''rawScores'')) ([], [], []))) = (computed, errors, calls)"
    by (metis prod_cases3)
  show ?thesis
    using assms Some c
    by (auto simp: psychometrics_POST_def Let_def split: if_splits)
qed

text \<open>
  C5, at a failing input. The combined endpoint checks that \<open>rawScores\<close> is an object of
  arrays and that the inventory names are known, but never looks at the values: for a
  Big Five entry holding the score 7 and a string it calls the Big Five scoring function,
  where the Big Five endpoint answers the same \<open>rawScores\<close> with the validation error
  \<open>Invalid score value\<close> and calls nothing.
\<close>

theorem psychometrics_scores_unvalidated_values:
  "snd (psychometrics_POST fs (Some out_of_range_body)) = [''bigfive'']
   \<and> bigfive_POST fs (Some out_of_range_body) = (ErrorResponse 400 ''Invalid score value'', [])"
  by (simp add: psychometrics_POST_def bigfive_POST_def out_of_range_body_def property_def
      truthy_def typeof_object_def isArray_def array_items_def validInventories_def
      entry_values_def calculate_def invalid_score_def split: sum.splits)


end
